theory Spec2Isabelle
  imports Complex_Main
begin

section \<open>Text\<close>

text \<open>
  A Python \<open>str\<close> is a sequence of Unicode code points. Isabelle's \<open>char\<close> is a byte, so
  a text is modelled as the list of its code points. ASCII texts (paths, dictionary keys)
  are written through \<open>asc\<close>.
\<close>

type_synonym ustring = "nat list"

definition asc :: "string \<Rightarrow> ustring" where
  "asc s = map of_char s"

text \<open>A character class is a list of inclusive code point ranges.\<close>

type_synonym cls = "(nat \<times> nat) list"

fun in_cls :: "nat \<Rightarrow> cls \<Rightarrow> bool" where
  "in_cls c [] = False"
| "in_cls c (r # rs) = ((fst r \<le> c \<and> c \<le> snd r) \<or> in_cls c rs)"

definition chars :: "ustring \<Rightarrow> cls" where
  \<comment> \<open>the class \<open>[abc]\<close> of the listed characters\<close>
  "chars cs = map (\<lambda>c. (c, c)) cs"

definition space_cls :: cls where
  \<comment> \<open>\<open>\s\<close>, \<open>str.isspace\<close>, \<open>str.split()\<close> and \<open>str.strip()\<close> of CPython all use this set\<close>
  "space_cls = [(0x9, 0xD), (0x1C, 0x20), (0x85, 0x85), (0xA0, 0xA0), (0x1680, 0x1680),
     (0x2000, 0x200A), (0x2028, 0x2029), (0x202F, 0x202F), (0x205F, 0x205F), (0x3000, 0x3000)]"

definition digit_cls :: cls where
  \<comment> \<open>\<open>\d\<close> on a \<open>str\<close> pattern: the decimal digits of every script (category Nd)\<close>
  "digit_cls = [(48, 57), (1632, 1641), (1776, 1785), (1984, 1993), (2406, 2415), (2534, 2543),
     (2662, 2671), (2790, 2799), (2918, 2927), (3046, 3055), (3174, 3183), (3302, 3311),
     (3430, 3439), (3558, 3567), (3664, 3673), (3792, 3801), (3872, 3881), (4160, 4169),
     (4240, 4249), (6112, 6121), (6160, 6169), (6470, 6479), (6608, 6617), (6784, 6793),
     (6800, 6809), (6992, 7001), (7088, 7097), (7232, 7241), (7248, 7257), (42528, 42537),
     (43216, 43225), (43264, 43273), (43472, 43481), (43504, 43513), (43600, 43609),
     (44016, 44025), (65296, 65305), (66720, 66729), (68912, 68921), (69734, 69743),
     (69872, 69881), (69942, 69951), (70096, 70105), (70384, 70393), (70736, 70745),
     (70864, 70873), (71248, 71257), (71360, 71369), (71472, 71481), (71904, 71913),
     (72016, 72025), (72784, 72793), (73040, 73049), (73120, 73129), (92768, 92777),
     (92864, 92873), (93008, 93017), (120782, 120831), (123200, 123209), (123632, 123641),
     (125264, 125273), (130032, 130041)]"

definition han_cls :: cls where
  \<comment> \<open>the class from U+4E00 to U+9FA5 (Han characters)\<close>
  "han_cls = [(0x4E00, 0x9FA5)]"

definition is_space :: "nat \<Rightarrow> bool" where
  "is_space c = in_cls c space_cls"

definition py_strip :: "ustring \<Rightarrow> ustring" where
  "py_strip s = rev (dropWhile is_space (rev (dropWhile is_space s)))"

text \<open>\<open>str.split()\<close> without argument: the maximal runs of non-space characters.\<close>

fun split_acc :: "ustring \<Rightarrow> ustring \<Rightarrow> ustring list" where
  "split_acc cur [] = (if cur = [] then [] else [rev cur])"
| "split_acc cur (c # s) =
     (if is_space c then (if cur = [] then split_acc [] s else rev cur # split_acc [] s)
      else split_acc (c # cur) s)"

definition py_split :: "ustring \<Rightarrow> ustring list" where
  "py_split s = split_acc [] s"

fun py_join :: "ustring \<Rightarrow> ustring list \<Rightarrow> ustring" where
  "py_join sep [] = []"
| "py_join sep [t] = t"
| "py_join sep (t # u # ts) = t @ sep @ py_join sep (u # ts)"

fun starts_with :: "ustring \<Rightarrow> ustring \<Rightarrow> bool" where
  \<comment> \<open>\<open>s.startswith(t)\<close>\<close>
  "starts_with s [] = True"
| "starts_with [] (c # t) = False"
| "starts_with (d # s) (c # t) = (d = c \<and> starts_with s t)"

fun py_in :: "ustring \<Rightarrow> ustring \<Rightarrow> bool" where
  \<comment> \<open>\<open>t in s\<close> on two texts\<close>
  "py_in t [] = (t = [])"
| "py_in t (c # s) = (starts_with (c # s) t \<or> py_in t s)"

text \<open>
  \<open>s.replace(old, new)\<close>: every occurrence, left to right, without overlap. An empty
  \<open>old\<close> matches before every character and at the end.
\<close>

function replace_from :: "ustring \<Rightarrow> ustring \<Rightarrow> ustring \<Rightarrow> ustring" where
  "replace_from old new [] = []"
| "replace_from old new (c # s) =
     (if old \<noteq> [] \<and> starts_with (c # s) old
      then new @ replace_from old new (drop (length old) (c # s))
      else c # replace_from old new s)"
  by pat_completeness auto
termination
  by (relation "measure (\<lambda>(old, new, s). length s)") auto

definition py_replace :: "ustring \<Rightarrow> ustring \<Rightarrow> ustring \<Rightarrow> ustring" where
  "py_replace s old new =
     (if old = [] then new @ concat (map (\<lambda>c. c # new) s) else replace_from old new s)"

section \<open>Regular expressions\<close>

text \<open>
  The patterns of the program use character classes, sequence, alternation, greedy
  repetition, capturing groups with back-references, look-ahead, one-character
  look-behind and \<open>$\<close>. The matcher is the backtracking one of \<open>re\<close>: it lists every way
  a pattern can match from a position, in the order in which \<open>re\<close> tries them (left
  alternative first, longer repetition first); the match \<open>re\<close> reports is the head of
  the list.

  A position is the text before it (reversed), the text after it, and the groups
  captured so far.
\<close>

datatype rx =
    Eps
  | Cls cls
  | Seq rx rx
  | Alt rx rx
  | Star rx
  | Grp nat rx
  | Bref nat
  | Ahead bool rx
  | Behind bool cls
  | Eos

type_synonym pos = "ustring \<times> ustring \<times> (nat \<times> ustring) list"

function matches :: "rx \<Rightarrow> pos \<Rightarrow> pos list" where
  "matches Eps m = [m]"
| "matches (Cls cs) (p, s, g) =
     (case s of [] \<Rightarrow> [] | c # s' \<Rightarrow> if in_cls c cs then [(c # p, s', g)] else [])"
| "matches (Seq a b) m = concat (map (matches b) (matches a m))"
| "matches (Alt a b) m = matches a m @ matches b m"
| "matches (Star r) (p, s, g) =
     concat (map (\<lambda>m'. if length (fst (snd m')) < length s then matches (Star r) m' else [])
                 (matches r (p, s, g)))
     @ [(p, s, g)]"
| "matches (Grp n r) (p, s, g) =
     map (\<lambda>m'. (fst m', fst (snd m'),
                 (n, rev (take (length (fst m') - length p) (fst m'))) # snd (snd m')))
         (matches r (p, s, g))"
| "matches (Bref n) (p, s, g) =
     (case map_of g n of
        None \<Rightarrow> []
      | Some t \<Rightarrow> if starts_with s t then [(rev t @ p, drop (length t) s, g)] else [])"
| "matches (Ahead want r) m = (if (matches r m \<noteq> []) = want then [m] else [])"
| "matches (Behind want cs) (p, s, g) =
     (if (case p of [] \<Rightarrow> False | c # _ \<Rightarrow> in_cls c cs) = want then [(p, s, g)] else [])"
| "matches Eos (p, s, g) = (if s = [] \<or> s = [0xA] then [(p, s, g)] else [])"
  by pat_completeness auto
termination
  by (relation "measures [\<lambda>(r, m). size r, \<lambda>(r, m). length (fst (snd m))]") auto

text \<open>Pattern syntax built from the constructors.\<close>

definition Opt :: "rx \<Rightarrow> rx" where
  \<comment> \<open>\<open>r?\<close>, greedy\<close>
  "Opt r = Alt r Eps"

definition Plus :: "rx \<Rightarrow> rx" where
  \<comment> \<open>\<open>r+\<close>\<close>
  "Plus r = Seq r (Star r)"

fun Lit :: "ustring \<Rightarrow> rx" where
  \<comment> \<open>a literal text\<close>
  "Lit [] = Eps"
| "Lit (c # cs) = Seq (Cls [(c, c)]) (Lit cs)"

fun UpTo :: "nat \<Rightarrow> rx \<Rightarrow> rx" where
  \<comment> \<open>\<open>r{0,n}\<close>, greedy\<close>
  "UpTo 0 r = Eps"
| "UpTo (Suc n) r = Opt (Seq r (UpTo n r))"

fun Rep :: "nat \<Rightarrow> nat \<Rightarrow> rx \<Rightarrow> rx" where
  \<comment> \<open>\<open>r{m,n}\<close>, greedy\<close>
  "Rep 0 n r = UpTo n r"
| "Rep (Suc m) n r = Seq r (Rep m (n - 1) r)"

fun AtLeast :: "nat \<Rightarrow> rx \<Rightarrow> rx" where
  \<comment> \<open>\<open>r{m,}\<close>, greedy\<close>
  "AtLeast 0 r = Star r"
| "AtLeast (Suc m) r = Seq r (AtLeast m r)"

fun Alts :: "rx list \<Rightarrow> rx" where
  \<comment> \<open>\<open>a|b|c\<close>\<close>
  "Alts [] = Ahead False Eps"
| "Alts [r] = r"
| "Alts (r # q # rs) = Alt r (Alts (q # rs))"

text \<open>
  A match object: where the match starts, the matched text (\<open>group()\<close>), the position
  after it and the captured groups.
\<close>

record rmatch =
  m_start :: nat
  m_group :: ustring
  m_end :: pos

definition mk_match :: "ustring \<Rightarrow> pos \<Rightarrow> rmatch" where
  "mk_match p m =
     \<lparr>m_start = length p, m_group = rev (take (length (fst m) - length p) (fst m)), m_end = m\<rparr>"

text \<open>\<open>re.search\<close>: the first match at the leftmost position that has one.\<close>

fun search_from :: "rx \<Rightarrow> ustring \<Rightarrow> ustring \<Rightarrow> rmatch option" where
  "search_from r p [] =
     (case matches r (p, [], []) of [] \<Rightarrow> None | m # _ \<Rightarrow> Some (mk_match p m))"
| "search_from r p (c # s) =
     (case matches r (p, c # s, []) of
        [] \<Rightarrow> search_from r (c # p) s
      | m # _ \<Rightarrow> Some (mk_match p m))"

definition re_search :: "rx \<Rightarrow> ustring \<Rightarrow> rmatch option" where
  "re_search r s = search_from r [] s"

text \<open>
  \<open>re.finditer\<close> and \<open>re.sub\<close> scan from left to right; after a match the scan resumes at
  its end, after an empty match one character later.
\<close>

function finditer_from :: "rx \<Rightarrow> ustring \<Rightarrow> ustring \<Rightarrow> rmatch list" where
  "finditer_from r p s =
     (case matches r (p, s, []) of
        [] \<Rightarrow> (case s of [] \<Rightarrow> [] | c # s' \<Rightarrow> finditer_from r (c # p) s')
      | m # _ \<Rightarrow>
          mk_match p m #
          (if length (fst (snd m)) < length s then finditer_from r (fst m) (fst (snd m))
           else (case s of [] \<Rightarrow> [] | c # s' \<Rightarrow> finditer_from r (c # p) s')))"
  by pat_completeness auto
termination
  by (relation "measure (\<lambda>(r, p, s). length s)") auto

definition re_finditer :: "rx \<Rightarrow> ustring \<Rightarrow> rmatch list" where
  "re_finditer r s = finditer_from r [] s"

datatype rpart = RLit ustring | RGrp nat

fun expand :: "(nat \<times> ustring) list \<Rightarrow> rpart list \<Rightarrow> ustring" where
  \<comment> \<open>the replacement template with \<open>\1\<close> filled in\<close>
  "expand g [] = []"
| "expand g (RLit t # ps) = t @ expand g ps"
| "expand g (RGrp n # ps) = (case map_of g n of None \<Rightarrow> [] | Some t \<Rightarrow> t) @ expand g ps"

function sub_from :: "rx \<Rightarrow> rpart list \<Rightarrow> ustring \<Rightarrow> ustring \<Rightarrow> ustring" where
  "sub_from r repl p s =
     (case matches r (p, s, []) of
        [] \<Rightarrow> (case s of [] \<Rightarrow> [] | c # s' \<Rightarrow> c # sub_from r repl (c # p) s')
      | m # _ \<Rightarrow>
          expand (snd (snd m)) repl @
          (if length (fst (snd m)) < length s then sub_from r repl (fst m) (fst (snd m))
           else (case s of [] \<Rightarrow> [] | c # s' \<Rightarrow> c # sub_from r repl (c # p) s')))"
  by pat_completeness auto
termination
  by (relation "measure (\<lambda>(r, repl, p, s). length s)") auto

definition re_sub :: "rx \<Rightarrow> rpart list \<Rightarrow> ustring \<Rightarrow> ustring" where
  "re_sub r repl s = sub_from r repl [] s"

section \<open>Contact extraction\<close>

definition phone_rx :: rx where
  \<comment> \<open>\<open>1[3-9]\d{9}\<close>\<close>
  "phone_rx = Seq (Cls [(0x31, 0x31)]) (Seq (Cls [(0x33, 0x39)]) (Rep 9 9 (Cls digit_cls)))"

definition honorific_rx :: rx where
  \<comment> \<open>the alternatives U+5148 U+751F (Mr), U+5973 U+58EB (Ms), U+5C0F U+59D0 (Miss)\<close>
  "honorific_rx = Alts [Lit [0x5148, 0x751F], Lit [0x5973, 0x58EB], Lit [0x5C0F, 0x59D0]]"

definition name_rx :: rx where
  \<comment> \<open>two or three Han characters with an optional honorific, or one with an honorific;
      then, looked ahead: a space, the end, one of the four punctuation marks
      U+FF0C \<open>,\<close> U+3002 \<open>.\<close>, or a phone number\<close>
  "name_rx =
     Seq (Alt (Seq (Rep 2 3 (Cls han_cls)) (Opt honorific_rx))
              (Seq (Rep 1 1 (Cls han_cls)) honorific_rx))
         (Ahead True (Alts [Cls space_cls, Eos, Cls (chars [0xFF0C, 0x2C, 0x3002, 0x2E]), phone_rx]))"

definition invalid_keywords :: "ustring list" where
  "invalid_keywords =
     [[0x5317, 0x4EAC], [0x4E0A, 0x6D77], [0x5E7F, 0x5DDE], [0x6DF1, 0x5733],
      [0x7701], [0x5E02], [0x533A], [0x53BF], [0x9547],
      [0x8857, 0x9053], [0x8DEF], [0x8857], [0x9053], [0x5DF7],
      [0x5C0F, 0x533A], [0x516C, 0x5BD3], [0x5BB6, 0x56ED], [0x82B1, 0x56ED],
      [0x5E7F, 0x573A], [0x5927, 0x53A6], [0x5927, 0x8857], [0x53F7, 0x9662]]"

definition common_surnames :: "ustring list" where
  "common_surnames =
     [[0x738B], [0x674E], [0x5F20], [0x5218], [0x9648], [0x6768], [0x9EC4], [0x8D75], [0x5434],
      [0x5468], [0x5F90], [0x5B59], [0x9A6C], [0x6731], [0x80E1], [0x90ED], [0x4F55], [0x9AD8],
      [0x6797], [0x90D1], [0x5C39], [0x94B1], [0x6881]]"

definition extract_contact_info :: "ustring \<Rightarrow> ustring \<times> ustring" where
  "extract_contact_info address =
     (let phone_match = re_search phone_rx address;
          phone = (case phone_match of None \<Rightarrow> [] | Some m \<Rightarrow> m_group m);
          address' = (case phone_match of None \<Rightarrow> address | Some m \<Rightarrow> py_replace address phone []);
          name = (case re_search name_rx address' of
                    None \<Rightarrow> []
                  | Some m \<Rightarrow>
                      (let potential_name = py_strip (m_group m)
                       in if \<not> list_ex (\<lambda>keyword. py_in keyword potential_name) invalid_keywords
                             \<and> list_ex (\<lambda>surname. starts_with potential_name surname) common_surnames
                          then potential_name else []))
      in (name, phone))"

section \<open>Python values and exceptions\<close>

text \<open>
  The values that \<open>json.loads\<close> produces and the program passes around. A decoded object
  is an association list that holds each key once.
\<close>

datatype pyv =
    PNone
  | PBool bool
  | PInt int
  | PFloat rat
  | PStr ustring
  | PList "pyv list"
  | PDict "(ustring \<times> pyv) list"

datatype exn =
    AmapError pyv pyv
  | AttributeError
  | TypeError
  | KeyError
  | IndexError
  | JSONDecodeError
  | TransportError

type_synonym 'a result = "exn + 'a"

definition andthen :: "'a result \<Rightarrow> ('a \<Rightarrow> 'b result) \<Rightarrow> 'b result" where
  \<comment> \<open>sequencing: the first exception raised ends the block\<close>
  "andthen m f = (case m of Inl e \<Rightarrow> Inl e | Inr x \<Rightarrow> f x)"

fun truthy :: "pyv \<Rightarrow> bool" where
  "truthy PNone = False"
| "truthy (PBool b) = b"
| "truthy (PInt n) = (n \<noteq> 0)"
| "truthy (PFloat q) = (q \<noteq> 0)"
| "truthy (PStr t) = (t \<noteq> [])"
| "truthy (PList xs) = (xs \<noteq> [])"
| "truthy (PDict kvs) = (kvs \<noteq> [])"

definition py_or :: "pyv \<Rightarrow> pyv \<Rightarrow> pyv" where
  "py_or a b = (if truthy a then a else b)"

fun py_get :: "pyv \<Rightarrow> ustring \<Rightarrow> pyv \<Rightarrow> pyv result" where
  \<comment> \<open>\<open>d.get(k, default)\<close>: only a dict has the method\<close>
  "py_get (PDict kvs) k d = Inr (case map_of kvs k of None \<Rightarrow> d | Some v \<Rightarrow> v)"
| "py_get _ k d = Inl AttributeError"

fun py_item :: "pyv \<Rightarrow> ustring \<Rightarrow> pyv result" where
  \<comment> \<open>\<open>d[k]\<close> with a text key\<close>
  "py_item (PDict kvs) k = (case map_of kvs k of None \<Rightarrow> Inl KeyError | Some v \<Rightarrow> Inr v)"
| "py_item _ k = Inl TypeError"

fun py_first :: "pyv \<Rightarrow> pyv result" where
  \<comment> \<open>\<open>x[0]\<close>; the keys of a decoded object are texts, so \<open>0\<close> is never one of them\<close>
  "py_first (PList xs) = (case xs of [] \<Rightarrow> Inl IndexError | x # _ \<Rightarrow> Inr x)"
| "py_first (PStr t) = (case t of [] \<Rightarrow> Inl IndexError | c # _ \<Rightarrow> Inr (PStr [c]))"
| "py_first (PDict kvs) = Inl KeyError"
| "py_first _ = Inl TypeError"

fun py_iter :: "pyv \<Rightarrow> pyv list result" where
  \<comment> \<open>the elements a \<open>for\<close> loop visits\<close>
  "py_iter (PList xs) = Inr xs"
| "py_iter (PStr t) = Inr (map (\<lambda>c. PStr [c]) t)"
| "py_iter (PDict kvs) = Inr (map (\<lambda>kv. PStr (fst kv)) kvs)"
| "py_iter _ = Inl TypeError"

fun hashable :: "pyv \<Rightarrow> bool" where
  "hashable (PList xs) = False"
| "hashable (PDict kvs) = False"
| "hashable _ = True"

definition table_get :: "(ustring \<times> ustring) list \<Rightarrow> pyv \<Rightarrow> pyv \<Rightarrow> pyv result" where
  \<comment> \<open>\<open>TABLE.get(key, default)\<close> on a class table with text keys\<close>
  "table_get table key d =
     (if \<not> hashable key then Inl TypeError
      else Inr (case key of
                  PStr k \<Rightarrow> (case map_of table k of None \<Rightarrow> d | Some v \<Rightarrow> PStr v)
                | _ \<Rightarrow> d))"

fun str_in :: "pyv \<Rightarrow> ustring \<Rightarrow> bool result" where
  \<comment> \<open>\<open>x in address\<close>: the left operand of \<open>in\<close> on a text must be a text\<close>
  "str_in (PStr t) s = Inr (py_in t s)"
| "str_in _ s = Inl TypeError"

fun str_replace :: "ustring \<Rightarrow> pyv \<Rightarrow> ustring result" where
  \<comment> \<open>\<open>s.replace(x, '')\<close>\<close>
  "str_replace s (PStr t) = Inr (py_replace s t [])"
| "str_replace s _ = Inl TypeError"

section \<open>The world outside the program\<close>

text \<open>
  Every call to the provider observes the clock and the network once. An observation holds
  the date \<open>datetime.now()\<close> shows, the two readings of \<open>time.time()\<close> in \<open>_rate_limit\<close>
  (before and after the sleep), and what the HTTPS exchange for a request yields: an
  exception (raised while the query is encoded, sent or read), a body that is not JSON, or
  the decoded body. The environment lists the observations in order, and gives the text
  that \<open>str()\<close> makes of a value that is not a text and of an exception of the runtime.
\<close>

datatype outcome = Failed | NotJson | Decoded pyv

type_synonym request = "ustring \<times> (ustring \<times> pyv) list"

record observation =
  obs_date :: ustring
  obs_time :: real
  obs_time_after :: real
  obs_response :: "request \<Rightarrow> outcome"

record env =
  observe :: "nat \<Rightarrow> observation"
  str_of :: "pyv \<Rightarrow> ustring"
  exc_text :: "exn \<Rightarrow> ustring"

definition py_str :: "env \<Rightarrow> pyv \<Rightarrow> ustring" where
  "py_str ev v = (case v of PStr t \<Rightarrow> t | _ \<Rightarrow> str_of ev v)"

definition exn_str :: "env \<Rightarrow> exn \<Rightarrow> ustring" where
  \<comment> \<open>\<open>str(e)\<close>; \<open>AmapError.__init__\<close> sets the text to the code and the message after
      U+9519 U+8BEF U+7801 (error code)\<close>
  "exn_str ev e =
     (case e of
        AmapError c m \<Rightarrow> [0x9519, 0x8BEF, 0x7801, 0x20] @ py_str ev c @ [0x3A, 0x20] @ py_str ev m
      | _ \<Rightarrow> exc_text ev e)"

section \<open>The gateway\<close>

record district_info =
  di_province :: pyv
  di_city :: pyv
  di_district :: pyv
  di_adcode :: pyv

record gateway =
  key :: ustring
  last_request_time :: real
  request_count :: nat
  quota_counter :: "ustring \<rightharpoonup> nat"
  quota_date :: "ustring option"
  district_cache :: "ustring \<rightharpoonup> district_info"
  clock :: nat

definition init :: gateway where
  \<comment> \<open>\<open>__init__\<close>; \<open>_quota_date\<close> and \<open>_district_cache\<close> do not exist yet; \<open>clock\<close> counts the
      observations made\<close>
  "init = \<lparr>key = [], last_request_time = 0, request_count = 0, quota_counter = Map.empty,
           quota_date = None, district_cache = Map.empty, clock = 0\<rparr>"

definition ERROR_MESSAGES :: "(ustring \<times> ustring) list" where
  "ERROR_MESSAGES =
    [([0x31, 0x30, 0x30, 0x30, 0x31], [0x41, 0x50, 0x49, 0x5BC6, 0x94A5, 0x4E0D, 0x6B63, 0x786E, 0x6216, 0x5DF2, 0x8FC7, 0x671F]),
     ([0x31, 0x30, 0x30, 0x30, 0x32], [0x6CA1, 0x6709, 0x6743, 0x9650, 0x4F7F, 0x7528, 0x8BE5, 0x670D, 0x52A1]),
     ([0x31, 0x30, 0x30, 0x30, 0x33], [0x8BBF, 0x95EE, 0x91CF, 0x8D85, 0x51FA, 0x65E5, 0x9650, 0x989D]),
     ([0x31, 0x30, 0x30, 0x30, 0x34], [0x8BBF, 0x95EE, 0x8FC7, 0x4E8E, 0x9891, 0x7E41]),
     ([0x31, 0x30, 0x30, 0x30, 0x35], [0x49, 0x50, 0x767D, 0x540D, 0x5355, 0x9519, 0x8BEF]),
     ([0x31, 0x30, 0x30, 0x30, 0x39], [0x8BF7, 0x6C42, 0x6B, 0x65, 0x79, 0x4E0E, 0x7ED1, 0x5B9A, 0x5E73, 0x53F0, 0x4E0D, 0x7B26]),
     ([0x31, 0x30, 0x30, 0x31, 0x30], [0x49, 0x50, 0x8BBF, 0x95EE, 0x8D85, 0x9650]),
     ([0x32, 0x30, 0x30, 0x30, 0x30], [0x8BF7, 0x6C42, 0x53C2, 0x6570, 0x975E, 0x6CD5]),
     ([0x32, 0x30, 0x30, 0x30, 0x31], [0x7F3A, 0x5C11, 0x5FC5, 0x586B, 0x53C2, 0x6570]),
     ([0x32, 0x30, 0x30, 0x31, 0x31], [0x67E5, 0x8BE2, 0x70B9, 0x5728, 0x6D77, 0x5916, 0xFF0C, 0x4F46, 0x65E0, 0x6D77, 0x5916, 0x5730, 0x56FE, 0x6743, 0x9650]),
     ([0x32, 0x30, 0x30, 0x31, 0x32], [0x67E5, 0x8BE2, 0x4FE1, 0x606F, 0x5B58, 0x5728, 0x975E, 0x6CD5, 0x5185, 0x5BB9]),
     ([0x33, 0x30, 0x30, 0x30, 0x30], [0x670D, 0x52A1, 0x54CD, 0x5E94, 0x5931, 0x8D25, 0xFF0C, 0x8BF7, 0x68C0, 0x67E5, 0x53C2, 0x6570])]"

definition check_response :: "pyv \<Rightarrow> unit result" where
  \<comment> \<open>the message of the first error is U+670D U+52A1 U+54CD U+5E94 U+4E3A U+7A7A
      (the service response is empty)\<close>
  "check_response result =
     (if \<not> truthy result
      then Inl (AmapError (PStr (asc ''30000'')) (PStr [0x670D, 0x52A1, 0x54CD, 0x5E94, 0x4E3A, 0x7A7A]))
      else andthen (py_get result (asc ''status'') PNone) (\<lambda>status.
           andthen (py_get result (asc ''info'') PNone) (\<lambda>info.
           andthen (py_get result (asc ''infocode'') PNone) (\<lambda>infocode.
             if status \<noteq> PStr (asc ''1'')
             then andthen (table_get ERROR_MESSAGES infocode info) (\<lambda>error_msg.
                    Inl (AmapError infocode error_msg))
             else Inr ()))))"

definition rate_limit :: "observation \<Rightarrow> gateway \<Rightarrow> gateway" where
  \<comment> \<open>when less than a tenth of a second has passed the program sleeps, which changes
      what the second reading of the clock shows and nothing in the program\<close>
  "rate_limit ob s =
     s\<lparr>last_request_time := obs_time_after ob, request_count := request_count s + 1\<rparr>"

definition quota_of :: "ustring \<Rightarrow> nat" where
  "quota_of path = (if starts_with path (asc ''/v3/place'') then 100 else 5000)"

definition check_quota :: "observation \<Rightarrow> ustring \<Rightarrow> gateway \<Rightarrow> bool \<times> gateway" where
  "check_quota ob path s =
     (let today = obs_date ob;
          s1 = (if quota_date s \<noteq> Some today
                then s\<lparr>quota_date := Some today, quota_counter := Map.empty\<rparr> else s);
          quota = quota_of path;
          n = (case quota_counter s1 path of None \<Rightarrow> 0 | Some k \<Rightarrow> k) + 1;
          s2 = s1\<lparr>quota_counter := (quota_counter s1)(path \<mapsto> n)\<rparr>
      in (n \<le> quota, s2))"

definition quota_exceeded :: exn where
  \<comment> \<open>\<open>AmapError("10003", ...)\<close> with the message U+8D85 U+51FA U+65E5 U+914D U+989D U+9650
      U+5236 (over the daily quota)\<close>
  "quota_exceeded =
     AmapError (PStr (asc ''10003'')) (PStr [0x8D85, 0x51FA, 0x65E5, 0x914D, 0x989D, 0x9650, 0x5236])"

definition request_body :: "env \<Rightarrow> ustring \<Rightarrow> (ustring \<times> pyv) list \<Rightarrow> gateway \<Rightarrow> pyv result \<times> gateway" where
  \<comment> \<open>the \<open>try\<close> block of \<open>_make_request\<close>\<close>
  "request_body ev path params s =
     (let ob = observe ev (clock s);
          (ok, s1) = check_quota ob path (s\<lparr>clock := clock s + 1\<rparr>)
      in if \<not> ok then (Inl quota_exceeded, s1)
         else (let s2 = rate_limit ob s1
               in case obs_response ob (path, params) of
                    Failed \<Rightarrow> (Inl TransportError, s2)
                  | NotJson \<Rightarrow> (Inl JSONDecodeError, s2)
                  | Decoded result \<Rightarrow>
                      (andthen (check_response result) (\<lambda>_. Inr result), s2)))"

definition request_failed :: "env \<Rightarrow> exn \<Rightarrow> exn" where
  \<comment> \<open>\<open>AmapError("30000", f"...: {str(e)}")\<close>, the text before the colon being
      U+8BF7 U+6C42 U+5931 U+8D25 (the request failed)\<close>
  "request_failed ev e =
     AmapError (PStr (asc ''30000'')) (PStr ([0x8BF7, 0x6C42, 0x5931, 0x8D25, 0x3A, 0x20] @ exn_str ev e))"

definition make_request :: "env \<Rightarrow> ustring \<Rightarrow> (ustring \<times> pyv) list \<Rightarrow> gateway \<Rightarrow> pyv result \<times> gateway" where
  \<comment> \<open>the two handlers: a body that is not JSON gives the message U+54CD U+5E94 U+6570 U+636E
      U+683C U+5F0F U+9519 U+8BEF (bad response format); every other exception, the
      program's own \<open>AmapError\<close> included, is wrapped\<close>
  "make_request ev path params s =
     (case request_body ev path params s of
        (Inr result, s') \<Rightarrow> (Inr result, s')
      | (Inl JSONDecodeError, s') \<Rightarrow>
          (Inl (AmapError (PStr (asc ''30000''))
                 (PStr [0x54CD, 0x5E94, 0x6570, 0x636E, 0x683C, 0x5F0F, 0x9519, 0x8BEF])), s')
      | (Inl e, s') \<Rightarrow> (Inl (request_failed ev e), s'))"

definition direct_request :: "env \<Rightarrow> ustring \<Rightarrow> (ustring \<times> pyv) list \<Rightarrow> gateway \<Rightarrow> pyv \<times> gateway" where
  \<comment> \<open>the body shared by \<open>_geo_code\<close> and \<open>_regeo_code\<close>: an \<open>HTTPSConnection\<close> of their own,
      the decoded body returned as it is, \<open>{}\<close> on any exception\<close>
  "direct_request ev path params s =
     (case obs_response (observe ev (clock s)) (path, params) of
        Decoded result \<Rightarrow> (result, s\<lparr>clock := clock s + 1\<rparr>)
      | _ \<Rightarrow> (PDict [], s\<lparr>clock := clock s + 1\<rparr>))"

definition geo_code :: "env \<Rightarrow> ustring \<Rightarrow> gateway \<Rightarrow> pyv \<times> gateway" where
  "geo_code ev address s =
     direct_request ev (asc ''/v3/geocode/geo'')
       [(asc ''address'', PStr address), (asc ''key'', PStr (key s)), (asc ''output'', PStr (asc ''json''))] s"

definition regeo_code :: "env \<Rightarrow> pyv \<Rightarrow> gateway \<Rightarrow> pyv \<times> gateway" where
  "regeo_code ev location s =
     direct_request ev (asc ''/v3/geocode/regeo'')
       [(asc ''location'', location), (asc ''key'', PStr (key s)),
        (asc ''extensions'', PStr (asc ''all'')), (asc ''output'', PStr (asc ''json''))] s"

section \<open>District lookup by name\<close>

definition district_of_result :: "pyv \<Rightarrow> district_info option result" where
  \<comment> \<open>what \<open>_get_district_by_name\<close> makes of the decoded response\<close>
  "district_of_result result =
     andthen (py_get result (asc ''status'') PNone) (\<lambda>status.
       if status \<noteq> PStr (asc ''1'') then Inr None
       else andthen (py_get result (asc ''districts'') PNone) (\<lambda>districts.
         if \<not> truthy districts then Inr None
         else andthen (py_item result (asc ''districts'')) (\<lambda>ds.
              andthen (py_first ds) (\<lambda>district.
              andthen (py_get district (asc ''province'') (PStr [])) (\<lambda>province.
              andthen (py_get district (asc ''cityname'') (PStr [])) (\<lambda>city.
              andthen (py_get district (asc ''name'') (PStr [])) (\<lambda>name.
              andthen (py_get district (asc ''adcode'') (PStr [])) (\<lambda>adcode.
                Inr (Some \<lparr>di_province = province, di_city = city, di_district = name,
                            di_adcode = adcode\<rparr>)))))))))"

definition get_district_by_name :: "env \<Rightarrow> ustring \<Rightarrow> gateway \<Rightarrow> district_info option \<times> gateway" where
  \<comment> \<open>\<open>None\<close> stands for the empty dict the function returns when nothing is found or an
      exception is caught\<close>
  "get_district_by_name ev name s =
     (case district_cache s name of
        Some info \<Rightarrow> (Some info, s)
      | None \<Rightarrow>
          (case make_request ev (asc ''/v3/config/district'')
                  [(asc ''keywords'', PStr name), (asc ''subdistrict'', PStr (asc ''0'')),
                   (asc ''key'', PStr (key s))] s of
             (Inl e, s1) \<Rightarrow> (None, s1)
           | (Inr result, s1) \<Rightarrow>
               (case district_of_result result of
                  Inl e \<Rightarrow> (None, s1)
                | Inr None \<Rightarrow> (None, s1)
                | Inr (Some info) \<Rightarrow>
                    (Some info, s1\<lparr>district_cache := (district_cache s1)(name \<mapsto> info)\<rparr>))))"

section \<open>Text cleaning\<close>

definition municipality_rx :: "nat \<Rightarrow> nat \<Rightarrow> rx" where
  \<comment> \<open>the pattern built from a two-character region \<open>ab\<close>: \<open>ab+(?:X)?ab+(?:X)?\<close> with X the
      character U+5E02 (city); the \<open>+\<close> binds to the second character only\<close>
  "municipality_rx a b =
     Seq (Lit [a]) (Seq (Plus (Lit [b])) (Seq (Opt (Lit [0x5E02]))
       (Seq (Lit [a]) (Seq (Plus (Lit [b])) (Opt (Lit [0x5E02]))))))"

definition collapse_municipality :: "nat \<times> nat \<Rightarrow> ustring \<Rightarrow> ustring" where
  "collapse_municipality region address =
     re_sub (municipality_rx (fst region) (snd region)) [RLit [fst region, snd region, 0x5E02]] address"

definition municipalities :: "(nat \<times> nat) list" where
  \<comment> \<open>Beijing, Shanghai, Tianjin, Chongqing\<close>
  "municipalities = [(0x5317, 0x4EAC), (0x4E0A, 0x6D77), (0x5929, 0x6D25), (0x91CD, 0x5E86)]"

definition suffix_cls :: cls where
  \<comment> \<open>the administrative suffixes U+7701 (province), U+5E02 (city), U+533A (district),
      U+53BF (county)\<close>
  "suffix_cls = chars [0x7701, 0x5E02, 0x533A, 0x53BF]"

definition blank_rx :: rx where
  \<comment> \<open>a run of CR, LF, TAB, U+3000 and U+00A0\<close>
  "blank_rx = Plus (Cls (chars [0xD, 0xA, 0x9, 0x3000, 0xA0]))"

definition suffix_run_rx :: rx where
  \<comment> \<open>a suffix character followed by itself: \<open>([...])\1+\<close>\<close>
  "suffix_run_rx = Seq (Grp 1 (Cls suffix_cls)) (Plus (Bref 1))"

definition road_run_rx :: rx where
  \<comment> \<open>\<open>(H+(?:AB|C|A|B))\1+\<close> with H a Han character, A B the two characters U+8857 U+9053
      (subdistrict) and C the character U+8DEF (road)\<close>
  "road_run_rx =
     Seq (Grp 1 (Seq (Plus (Cls han_cls))
                     (Alts [Lit [0x8857, 0x9053], Lit [0x8DEF], Lit [0x8857], Lit [0x9053]])))
         (Plus (Bref 1))"

definition spaces_rx :: rx where
  \<comment> \<open>\<open>\s+\<close>\<close>
  "spaces_rx = Plus (Cls space_cls)"

definition suffix_space_rx :: rx where
  \<comment> \<open>a suffix character, spaces, and a Han character looked ahead\<close>
  "suffix_space_rx = Seq (Grp 1 (Cls suffix_cls)) (Seq (Plus (Cls space_cls)) (Ahead True (Cls han_cls)))"

definition cleaned_address :: "ustring \<Rightarrow> ustring" where
  \<comment> \<open>the variable \<open>address\<close> of \<open>_clean_address_string\<close> after its rewriting steps, before
      it is split\<close>
  "cleaned_address address =
     (let a1 = re_sub blank_rx [RLit [0x20]] address;
          a2 = fold collapse_municipality municipalities a1;
          a3 = re_sub suffix_run_rx [RGrp 1] a2;
          a4 = re_sub road_run_rx [RGrp 1] a3;
          a5 = re_sub spaces_rx [RLit [0x20]] a4;
          a6 = py_strip a5
      in re_sub suffix_space_rx [RGrp 1] a6)"

fun dedupe :: "ustring list \<Rightarrow> ustring list \<Rightarrow> ustring list" where
  \<comment> \<open>the loop over \<open>parts\<close>: a part is kept when it has not been seen\<close>
  "dedupe seen [] = []"
| "dedupe seen (part # parts) =
     (if part \<in> set seen then dedupe seen parts else part # dedupe (part # seen) parts)"

definition cleaned_parts :: "ustring \<Rightarrow> ustring list" where
  "cleaned_parts address = dedupe [] (py_split (cleaned_address address))"

definition county_patterns :: "rx list" where
  \<comment> \<open>a class of five characters and the bar, then U+53BF (county); one to three Han
      characters, then U+53BF\<close>
  "county_patterns =
     [Grp 1 (Seq (Cls (chars [0x4E34, 0x7C, 0x84B2, 0x7C, 0x6C38, 0x7C, 0x6D2A, 0x7C, 0x6E05]))
                 (Cls (chars [0x53BF]))),
      Grp 1 (Seq (Rep 1 3 (Cls han_cls)) (Cls (chars [0x53BF])))]"

fun county_matches :: "env \<Rightarrow> rmatch list \<Rightarrow> ustring \<times> gateway \<Rightarrow> ustring \<times> gateway" where
  \<comment> \<open>the inner loop; the test looks for U+7701 or U+5E02 in the current \<open>address\<close> up to
      the place where the match started in the text the iterator was made from\<close>
  "county_matches ev [] (address, s) = (address, s)"
| "county_matches ev (m # ms) (address, s) =
     (if \<not> (py_in [0x7701] (take (m_start m) address) \<or> py_in [0x5E02] (take (m_start m) address))
      then (case get_district_by_name ev (m_group m) s of
              (None, s') \<Rightarrow> county_matches ev ms (address, s')
            | (Some info, s') \<Rightarrow>
                county_matches ev ms
                  (py_str ev (di_province info) @ py_str ev (di_city info) @ address, s'))
      else county_matches ev ms (address, s))"

fun county_loop :: "env \<Rightarrow> rx list \<Rightarrow> ustring \<times> gateway \<Rightarrow> ustring \<times> gateway" where
  "county_loop ev [] (address, s) = (address, s)"
| "county_loop ev (pattern # patterns) (address, s) =
     county_loop ev patterns (county_matches ev (re_finditer pattern address) (address, s))"

definition clean_address_string :: "env \<Rightarrow> ustring \<Rightarrow> gateway \<Rightarrow> ustring \<times> gateway" where
  \<comment> \<open>the county loop rebinds \<open>address\<close>; the value returned is made of \<open>cleaned_parts\<close>\<close>
  "clean_address_string ev address s =
     (let (address', s') = county_loop ev county_patterns (cleaned_address address, s)
      in (py_join [0x20] (cleaned_parts address), s'))"

definition rewrite_patterns :: "rx list" where
  \<comment> \<open>the patterns of the rewriting steps that can apply to a text with single blanks\<close>
  "rewrite_patterns =
     map (\<lambda>region. municipality_rx (fst region) (snd region)) municipalities
     @ [suffix_run_rx, road_run_rx, suffix_space_rx]"

fun no_match :: "rx list \<Rightarrow> ustring \<Rightarrow> bool" where
  \<comment> \<open>none of the patterns is found in the text\<close>
  "no_match [] text = True"
| "no_match (r # rs) text = (re_search r text = None \<and> no_match rs text)"

section \<open>Address components\<close>

text \<open>
  The record a parse returns is a Python dict with text keys; it is modelled as a map, so
  that a key can be present or absent.
\<close>

type_synonym pydict = "ustring \<rightharpoonup> pyv"

definition empty_components :: pydict where
  "empty_components =
     map_of [(asc ''province'', PStr []), (asc ''city'', PStr []), (asc ''district'', PStr []),
             (asc ''street'', PStr []), (asc ''building'', PStr []), (asc ''unit'', PStr []),
             (asc ''room'', PStr []), (asc ''name'', PStr []), (asc ''phone'', PStr []),
             (asc ''weather'', PNone)]"

definition field :: "pydict \<Rightarrow> ustring \<Rightarrow> pyv" where
  \<comment> \<open>\<open>components.get(key)\<close>\<close>
  "field components k = (case components k of None \<Rightarrow> PNone | Some v \<Rightarrow> v)"

fun remove_fields :: "pydict \<Rightarrow> ustring list \<Rightarrow> ustring \<Rightarrow> ustring result" where
  \<comment> \<open>for each key in turn: when the component is set, its text is cut out\<close>
  "remove_fields components [] text = Inr text"
| "remove_fields components (k # ks) text =
     (if truthy (field components k)
      then andthen (str_replace text (field components k)) (remove_fields components ks)
      else remove_fields components ks text)"

section \<open>Building, unit and room\<close>

definition special_keywords :: "(rx \<times> bool) list" where
  \<comment> \<open>Han characters followed by: university, college, middle school, first, second and
      third middle school, primary school, hospital, government, bank, plaza; with the
      flag that says whether the district stays in the name\<close>
  "special_keywords =
     [(Seq (Plus (Cls han_cls)) (Lit [0x5927, 0x5B66]), False),
      (Seq (Plus (Cls han_cls)) (Lit [0x5B66, 0x9662]), False),
      (Seq (Plus (Cls han_cls)) (Lit [0x4E2D, 0x5B66]), True),
      (Seq (Plus (Cls han_cls)) (Lit [0x4E00, 0x4E2D]), True),
      (Seq (Plus (Cls han_cls)) (Lit [0x4E8C, 0x4E2D]), True),
      (Seq (Plus (Cls han_cls)) (Lit [0x4E09, 0x4E2D]), True),
      (Seq (Plus (Cls han_cls)) (Lit [0x5C0F, 0x5B66]), True),
      (Seq (Plus (Cls han_cls)) (Lit [0x533B, 0x9662]), True),
      (Seq (Plus (Cls han_cls)) (Lit [0x653F, 0x5E9C]), True),
      (Seq (Plus (Cls han_cls)) (Lit [0x94F6, 0x884C]), False),
      (Seq (Plus (Cls han_cls)) (Lit [0x5E7F, 0x573A]), False)]"

fun first_special :: "(rx \<times> bool) list \<Rightarrow> ustring \<Rightarrow> bool option" where
  \<comment> \<open>the flag of the first special pattern found in the text\<close>
  "first_special [] address = None"
| "first_special (pk # pks) address =
     (case re_search (fst pk) address of
        Some m \<Rightarrow> Some (snd pk)
      | None \<Rightarrow> first_special pks address)"

definition unit_rx :: rx where
  \<comment> \<open>digits and the two characters U+5355 U+5143 (unit)\<close>
  "unit_rx = Seq (Plus (Cls digit_cls)) (Lit [0x5355, 0x5143])"

definition room_end :: rx where
  \<comment> \<open>looked ahead: the character U+5BA4 (room) or the end\<close>
  "room_end = Ahead True (Alt (Lit [0x5BA4]) Eos)"

definition room_patterns :: "rx list" where
  \<comment> \<open>two to four digits not preceded by a digit; a Latin letter and two to four digits;
      two to four digits preceded by a hyphen\<close>
  "room_patterns =
     [Seq (Behind False digit_cls) (Seq (Rep 2 4 (Cls digit_cls)) room_end),
      Seq (Cls [(0x41, 0x5A), (0x61, 0x7A)]) (Seq (Rep 2 4 (Cls digit_cls)) room_end),
      Seq (Behind True (chars [0x2D])) (Seq (Rep 2 4 (Cls digit_cls)) room_end)]"

definition room_suffix_rx :: rx where
  \<comment> \<open>U+5BA4, spaces, the end\<close>
  "room_suffix_rx = Seq (Lit [0x5BA4]) (Seq (Star (Cls space_cls)) Eos)"

fun first_match :: "rx list \<Rightarrow> ustring \<Rightarrow> rmatch option" where
  \<comment> \<open>the loop with \<open>break\<close>: the match of the first pattern that has one\<close>
  "first_match [] text = None"
| "first_match (pattern # patterns) text =
     (case re_search pattern text of
        Some m \<Rightarrow> Some m
      | None \<Rightarrow> first_match patterns text)"

definition extract_unit :: "ustring \<Rightarrow> ustring \<times> ustring" where
  \<comment> \<open>the unit and the text without it\<close>
  "extract_unit remaining =
     (case re_search unit_rx remaining of
        None \<Rightarrow> ([], remaining)
      | Some m \<Rightarrow> (m_group m, py_replace remaining (m_group m) []))"

definition extract_room :: "rx list \<Rightarrow> ustring \<Rightarrow> ustring \<times> ustring" where
  \<comment> \<open>the room and the text without it\<close>
  "extract_room patterns remaining =
     (case first_match patterns remaining of
        None \<Rightarrow> ([], remaining)
      | Some m \<Rightarrow> (m_group m, re_sub room_suffix_rx [] (py_replace remaining (m_group m) [])))"

definition building_result :: "ustring \<Rightarrow> ustring \<Rightarrow> ustring \<Rightarrow> pydict" where
  "building_result building unit room =
     map_of [(asc ''building'', PStr building), (asc ''unit'', PStr unit), (asc ''room'', PStr room)]"

definition decompose :: "ustring \<Rightarrow> pydict" where
  \<comment> \<open>\<open>_extract_building_info\<close> from the extraction of the unit on\<close>
  "decompose remaining =
     (let (unit, r1) = extract_unit remaining;
          (room, r2) = extract_room room_patterns r1;
          r3 = py_strip (re_sub spaces_rx [RLit [0x20]] r2)
      in building_result r3 unit room)"

definition special_place :: "ustring \<Rightarrow> pydict \<Rightarrow> bool \<Rightarrow> pydict result" where
  "special_place address components should_keep_district =
     andthen (remove_fields components [asc ''province'', asc ''city''] address) (\<lambda>place.
     andthen (if \<not> should_keep_district \<and> truthy (field components (asc ''district''))
              then str_replace place (field components (asc ''district'')) else Inr place) (\<lambda>place'.
       Inr (building_result (py_strip place') [] [])))"

definition extract_building_info :: "env \<Rightarrow> ustring \<Rightarrow> pydict \<Rightarrow> gateway \<Rightarrow> pydict result \<times> gateway" where
  "extract_building_info ev address components s =
     (case remove_fields components [asc ''province'', asc ''city'', asc ''name'', asc ''phone''] address of
        Inl e \<Rightarrow> (Inl e, s)
      | Inr remaining \<Rightarrow>
          (let (remaining_address, s') = clean_address_string ev remaining s
           in case first_special special_keywords address of
                Some keep \<Rightarrow> (special_place address components keep, s')
              | None \<Rightarrow> (Inr (decompose remaining_address), s')))"

section \<open>Street from the formatted address\<close>

definition street_patterns :: "rx list" where
  \<comment> \<open>at least two Han characters and then one character of a class: U+8857 U+9053; U+8DEF
      not followed by U+53E3; U+8857 not followed by U+9053; U+5927 U+9053; U+5E7F U+573A;
      U+5F00 U+53D1 U+533A; U+5DE5 U+4E1A U+56ED; U+79D1 U+6280 U+56ED\<close>
  "street_patterns =
     [Seq (AtLeast 2 (Cls han_cls)) (Cls (chars [0x8857, 0x9053])),
      Seq (AtLeast 2 (Cls han_cls)) (Seq (Cls (chars [0x8DEF])) (Ahead False (Lit [0x53E3]))),
      Seq (AtLeast 2 (Cls han_cls)) (Seq (Cls (chars [0x8857])) (Ahead False (Lit [0x9053]))),
      Seq (AtLeast 2 (Cls han_cls)) (Cls (chars [0x5927, 0x9053])),
      Seq (AtLeast 2 (Cls han_cls)) (Cls (chars [0x5E7F, 0x573A])),
      Seq (AtLeast 2 (Cls han_cls)) (Cls (chars [0x5F00, 0x53D1, 0x533A])),
      Seq (AtLeast 2 (Cls han_cls)) (Cls (chars [0x5DE5, 0x4E1A, 0x56ED])),
      Seq (AtLeast 2 (Cls han_cls)) (Cls (chars [0x79D1, 0x6280, 0x56ED]))]"

fun remove_regions :: "pyv list \<Rightarrow> pyv \<Rightarrow> pyv result" where
  \<comment> \<open>\<open>remaining_address.replace(region, '')\<close> for every region that is set; only a text
      has the method\<close>
  "remove_regions [] remaining = Inr remaining"
| "remove_regions (region # regions) remaining =
     (if truthy region
      then (case remaining of
              PStr text \<Rightarrow> andthen (str_replace text region) (\<lambda>t. remove_regions regions (PStr t))
            | _ \<Rightarrow> Inl AttributeError)
      else remove_regions regions remaining)"

definition extract_possible_street :: "pyv \<Rightarrow> pyv list \<Rightarrow> ustring result" where
  \<comment> \<open>\<open>re.search\<close> raises \<open>TypeError\<close> on a value that is not a text\<close>
  "extract_possible_street formatted_address regions_to_remove =
     andthen (remove_regions regions_to_remove formatted_address) (\<lambda>remaining.
       case remaining of
         PStr text \<Rightarrow> Inr (case first_match street_patterns text of None \<Rightarrow> [] | Some m \<Rightarrow> m_group m)
       | _ \<Rightarrow> Inl TypeError)"

section \<open>Weather\<close>

definition WEATHER_DESC :: "(ustring \<times> ustring) list" where
  "WEATHER_DESC =
    [([0x6674], [0x6674, 0x6717, 0x65E0, 0x4E91]),
     ([0x5C11, 0x4E91], [0x6674, 0x6717, 0xFF0C, 0x6709, 0x5C11, 0x91CF, 0x4E91, 0x6735]),
     ([0x6674, 0x95F4, 0x591A, 0x4E91], [0x6674, 0x5929, 0x4E3A, 0x4E3B, 0xFF0C, 0x95F4, 0x6709, 0x4E91, 0x5C42]),
     ([0x591A, 0x4E91], [0x4E91, 0x91CF, 0x8F83, 0x591A]),
     ([0x9634], [0x4E91, 0x5C42, 0x539A, 0x5BC6, 0xFF0C, 0x5929, 0x8272, 0x9634, 0x6C89]),
     ([0x6709, 0x98CE], [0x6709, 0x660E, 0x663E, 0x7684, 0x98CE]),
     ([0x5E73, 0x9759], [0x65E0, 0x98CE, 0x6216, 0x5FAE, 0x98CE]),
     ([0x5FAE, 0x98CE], [0x6811, 0x53F6, 0x8F7B, 0x5FAE, 0x6447, 0x52A8]),
     ([0x548C, 0x98CE], [0x6811, 0x679D, 0x6447, 0x52A8]),
     ([0x6E05, 0x98CE], [0x5439, 0x52A8, 0x8863, 0x7269]),
     ([0x5F3A, 0x98CE, 0x2F, 0x52B2, 0x98CE], [0x5927, 0x6811, 0x6447, 0x52A8]),
     ([0x75BE, 0x98CE], [0x884C, 0x8D70, 0x56F0, 0x96BE]),
     ([0x5927, 0x98CE], [0x6811, 0x679D, 0x6298, 0x65AD]),
     ([0x70C8, 0x98CE], [0x623F, 0x5C4B, 0x635F, 0x574F]),
     ([0x9635, 0x96E8], [0x77ED, 0x65F6, 0x964D, 0x96E8]),
     ([0x96F7, 0x9635, 0x96E8], [0x96F7, 0x96E8, 0x5929, 0x6C14]),
     ([0x5C0F, 0x96E8], [0x96E8, 0x91CF, 0x8F83, 0x5C0F]),
     ([0x4E2D, 0x96E8], [0x660E, 0x663E, 0x964D, 0x96E8]),
     ([0x5927, 0x96E8], [0x96E8, 0x91CF, 0x8F83, 0x5927]),
     ([0x66B4, 0x96E8], [0x96E8, 0x91CF, 0x5F88, 0x5927]),
     ([0x96E8, 0x5939, 0x96EA], [0x96E8, 0x96EA, 0x6DF7, 0x5408]),
     ([0x5C0F, 0x96EA], [0x96EA, 0x91CF, 0x8F83, 0x5C0F]),
     ([0x4E2D, 0x96EA], [0x660E, 0x663E, 0x964D, 0x96EA]),
     ([0x5927, 0x96EA], [0x96EA, 0x91CF, 0x8F83, 0x5927]),
     ([0x96FE], [0x80FD, 0x89C1, 0x5EA6, 0x8F83, 0x4F4E]),
     ([0x6D53, 0x96FE], [0x80FD, 0x89C1, 0x5EA6, 0x5F88, 0x4F4E]),
     ([0x973E], [0x7A7A, 0x6C14, 0x6DF7, 0x6D4A]),
     ([0x70ED], [0x6C14, 0x6E29, 0x504F, 0x9AD8]),
     ([0x51B7], [0x6C14, 0x6E29, 0x504F, 0x4F4E])]"

definition WIND_POWER :: "(ustring \<times> ustring) list" where
  "WIND_POWER =
    [([0x2264, 0x33], [0x5FAE, 0x98CE, 0x28, 0x5C0F, 0x4E8E, 0x31, 0x32, 0x6B, 0x6D, 0x2F, 0x68, 0x29]),
     ([0x34], [0x548C, 0x98CE, 0x28, 0x31, 0x33, 0x2D, 0x31, 0x39, 0x6B, 0x6D, 0x2F, 0x68, 0x29]),
     ([0x35], [0x6E05, 0x98CE, 0x28, 0x32, 0x30, 0x2D, 0x32, 0x39, 0x6B, 0x6D, 0x2F, 0x68, 0x29]),
     ([0x36], [0x5F3A, 0x98CE, 0x28, 0x33, 0x30, 0x2D, 0x33, 0x39, 0x6B, 0x6D, 0x2F, 0x68, 0x29]),
     ([0x37], [0x75BE, 0x98CE, 0x28, 0x34, 0x30, 0x2D, 0x34, 0x39, 0x6B, 0x6D, 0x2F, 0x68, 0x29]),
     ([0x38], [0x5927, 0x98CE, 0x28, 0x35, 0x30, 0x2D, 0x36, 0x31, 0x6B, 0x6D, 0x2F, 0x68, 0x29]),
     ([0x39], [0x70C8, 0x98CE, 0x28, 0x36, 0x32, 0x2D, 0x37, 0x34, 0x6B, 0x6D, 0x2F, 0x68, 0x29]),
     ([0x31, 0x30], [0x72C2, 0x98CE, 0x28, 0x37, 0x35, 0x2D, 0x38, 0x37, 0x6B, 0x6D, 0x2F, 0x68, 0x29]),
     ([0x31, 0x31], [0x66B4, 0x98CE, 0x28, 0x38, 0x38, 0x2D, 0x31, 0x30, 0x32, 0x6B, 0x6D, 0x2F, 0x68, 0x29]),
     ([0x31, 0x32], [0x53F0, 0x98CE, 0x28, 0x2265, 0x31, 0x30, 0x33, 0x6B, 0x6D, 0x2F, 0x68, 0x29])]"

definition WIND_DIRECTION :: "(ustring \<times> ustring) list" where
  "WIND_DIRECTION =
    [([0x65E0, 0x98CE, 0x5411], [0x65E0, 0x660E, 0x663E, 0x98CE, 0x5411]),
     ([0x4E1C, 0x5317], [0x4E1C, 0x5317, 0x98CE]),
     ([0x4E1C], [0x4E1C, 0x98CE]),
     ([0x4E1C, 0x5357], [0x4E1C, 0x5357, 0x98CE]),
     ([0x5357], [0x5357, 0x98CE]),
     ([0x897F, 0x5357], [0x897F, 0x5357, 0x98CE]),
     ([0x897F], [0x897F, 0x98CE]),
     ([0x897F, 0x5317], [0x897F, 0x5317, 0x98CE]),
     ([0x5317], [0x5317, 0x98CE]),
     ([0x65CB, 0x8F6C, 0x4E0D, 0x5B9A], [0x98CE, 0x5411, 0x4E0D, 0x5B9A])]"

definition weather_block :: "env \<Rightarrow> pyv \<Rightarrow> string \<Rightarrow> string \<Rightarrow> string \<Rightarrow> string \<Rightarrow> (ustring \<times> pyv) list result" where
  \<comment> \<open>the entries \<open>weather\<close>, \<open>temperature\<close> and \<open>wind\<close> read from the given keys of an
      observation; the defaults are "unknown weather", "unknown wind direction" and
      "unknown wind power", and the temperature ends with U+2103\<close>
  "weather_block ev d kw kt kd kp =
     andthen (py_get d (asc kw) (PStr [])) (\<lambda>code.
     andthen (table_get WEATHER_DESC code (PStr [0x672A, 0x77E5, 0x5929, 0x6C14])) (\<lambda>desc.
     andthen (py_get d (asc kt) (PStr [])) (\<lambda>temperature.
     andthen (py_get d (asc kd) (PStr [])) (\<lambda>wd.
     andthen (table_get WIND_DIRECTION wd (PStr [0x672A, 0x77E5, 0x98CE, 0x5411])) (\<lambda>direction.
     andthen (py_get d (asc kp) (PStr [])) (\<lambda>wp.
     andthen (table_get WIND_POWER wp (PStr [0x672A, 0x77E5, 0x98CE, 0x529B])) (\<lambda>power.
       Inr [(asc ''weather'', PDict [(asc ''code'', code), (asc ''desc'', desc)]),
            (asc ''temperature'', PStr (py_str ev temperature @ [0x2103])),
            (asc ''wind'', PDict [(asc ''direction'', direction), (asc ''power'', power)])])))))))"

definition current_of :: "env \<Rightarrow> pyv \<Rightarrow> pyv result" where
  "current_of ev live =
     andthen (weather_block ev live ''weather'' ''temperature'' ''winddirection'' ''windpower'') (\<lambda>block.
     andthen (py_get live (asc ''humidity'') (PStr [])) (\<lambda>humidity.
     andthen (py_get live (asc ''reporttime'') (PStr [])) (\<lambda>reporttime.
       Inr (PDict (block @ [(asc ''humidity'', PStr (py_str ev humidity @ [0x25])),
                            (asc ''reporttime'', reporttime)])))))"

definition forecast_of :: "env \<Rightarrow> pyv \<Rightarrow> pyv result" where
  "forecast_of ev cast =
     andthen (py_get cast (asc ''date'') (PStr [])) (\<lambda>date.
     andthen (py_get cast (asc ''week'') (PStr [])) (\<lambda>week.
     andthen (weather_block ev cast ''dayweather'' ''daytemp'' ''daywind'' ''daypower'') (\<lambda>day.
     andthen (weather_block ev cast ''nightweather'' ''nighttemp'' ''nightwind'' ''nightpower'') (\<lambda>night.
       Inr (PDict [(asc ''date'', date), (asc ''week'', week), (asc ''day'', PDict day),
                   (asc ''night'', PDict night)])))))"

fun each :: "('a \<Rightarrow> 'b result) \<Rightarrow> 'a list \<Rightarrow> 'b list result" where
  \<comment> \<open>a loop that appends one result per element and stops at the first exception\<close>
  "each f [] = Inr []"
| "each f (x # xs) = andthen (f x) (\<lambda>y. andthen (each f xs) (\<lambda>ys. Inr (y # ys)))"

definition weather_of :: "env \<Rightarrow> pyv \<Rightarrow> pyv result" where
  \<comment> \<open>what \<open>_get_weather_info\<close> makes of the decoded response\<close>
  "weather_of ev result =
     andthen (py_get result (asc ''status'') PNone) (\<lambda>status.
       if status \<noteq> PStr (asc ''1'') then Inr PNone
       else
         andthen (py_get result (asc ''lives'') PNone) (\<lambda>lives.
         andthen (if truthy lives
                  then andthen (py_item result (asc ''lives'')) (\<lambda>ls.
                       andthen (py_first ls) (current_of ev))
                  else Inr PNone) (\<lambda>current.
         andthen (py_get result (asc ''forecasts'') PNone) (\<lambda>forecasts.
         andthen (if truthy forecasts
                  then andthen (py_item result (asc ''forecasts'')) (\<lambda>fs.
                       andthen (py_first fs) (\<lambda>f.
                       andthen (py_get f (asc ''casts'') (PList [])) (\<lambda>casts.
                       andthen (py_iter casts) (each (forecast_of ev)))))
                  else Inr []) (\<lambda>forecast.
           Inr (PDict [(asc ''current'', current), (asc ''forecast'', PList forecast)]))))))"

definition get_weather_info :: "env \<Rightarrow> pyv \<Rightarrow> gateway \<Rightarrow> pyv \<times> gateway" where
  "get_weather_info ev adcode s =
     (case make_request ev (asc ''/v3/weather/weatherInfo'')
             [(asc ''key'', PStr (key s)), (asc ''city'', adcode),
              (asc ''extensions'', PStr (asc ''all'')), (asc ''output'', PStr (asc ''json''))] s of
        (Inl e, s1) \<Rightarrow> (PNone, s1)
      | (Inr result, s1) \<Rightarrow> (case weather_of ev result of Inl e \<Rightarrow> (PNone, s1) | Inr w \<Rightarrow> (w, s1)))"

section \<open>Coordinates\<close>

definition convert_coordinates :: "env \<Rightarrow> ustring \<Rightarrow> ustring \<Rightarrow> gateway \<Rightarrow> pyv \<times> gateway" where
  "convert_coordinates ev locations coordsys s =
     (case make_request ev (asc ''/v3/assistant/coordinate/convert'')
             [(asc ''locations'', PStr locations), (asc ''coordsys'', PStr coordsys),
              (asc ''key'', PStr (key s)), (asc ''output'', PStr (asc ''json''))] s of
        (Inl e, s1) \<Rightarrow> (PStr locations, s1)
      | (Inr result, s1) \<Rightarrow>
          (case andthen (py_get result (asc ''status'') PNone) (\<lambda>status.
                  if status = PStr (asc ''1'')
                  then andthen (py_get result (asc ''locations'') (PStr [])) (\<lambda>v. Inr (Some v))
                  else Inr None) of
             Inr (Some v) \<Rightarrow> (v, s1)
           | _ \<Rightarrow> (PStr locations, s1)))"

definition locate :: "env \<Rightarrow> ustring option \<Rightarrow> ustring option \<Rightarrow> gateway \<Rightarrow> pyv \<times> gateway" where
  \<comment> \<open>the variable \<open>location\<close> of \<open>parse_address\<close>\<close>
  "locate ev coordinates coordsys s =
     (case coordinates of
        None \<Rightarrow> (PNone, s)
      | Some c \<Rightarrow>
          if c = [] then (PNone, s)
          else (case coordsys of
                  None \<Rightarrow> (PStr c, s)
                | Some cs \<Rightarrow>
                    if cs \<noteq> [] \<and> cs \<noteq> asc ''autonavi'' then convert_coordinates ev c cs s
                    else (PStr c, s)))"

section \<open>Parsing an address\<close>

definition components_of :: "pyv \<Rightarrow> pyv \<Rightarrow> pyv \<Rightarrow> pyv \<Rightarrow> pydict" where
  \<comment> \<open>the dict literal that every branch starts from\<close>
  "components_of province city district street =
     map_of [(asc ''province'', province), (asc ''city'', city), (asc ''district'', district),
             (asc ''street'', street), (asc ''building'', PStr []), (asc ''unit'', PStr []),
             (asc ''room'', PStr []), (asc ''name'', PStr []), (asc ''phone'', PStr []),
             (asc ''weather'', PNone)]"

definition with_contact :: "ustring \<Rightarrow> pydict \<Rightarrow> pydict" where
  "with_contact address components =
     (let (name, phone) = extract_contact_info address
      in components(asc ''name'' \<mapsto> PStr name, asc ''phone'' \<mapsto> PStr phone))"

definition district_branch :: "env \<Rightarrow> ustring \<Rightarrow> district_info \<Rightarrow> gateway \<Rightarrow> pydict \<times> gateway" where
  \<comment> \<open>the branch of \<open>_parse_address_by_text\<close> taken when the name lookup gives a province\<close>
  "district_branch ev clean_address info s =
     (let components = components_of (di_province info) (py_or (di_city info) (di_province info))
                         (di_district info) (PStr []);
          components1 =
            (if PStr clean_address \<noteq> di_province info \<and> PStr clean_address \<noteq> di_city info
                \<and> PStr clean_address \<noteq> di_district info
             then components(asc ''building'' \<mapsto> PStr clean_address) else components)
      in if truthy (di_adcode info)
         then (let (w, s1) = get_weather_info ev (di_adcode info) s
               in (components1(asc ''weather'' \<mapsto> w), s1))
         else (components1, s))"

definition geocode_components :: "pyv \<Rightarrow> pydict result" where
  "geocode_components geocode =
     andthen (py_get geocode (asc ''province'') (PStr [])) (\<lambda>province.
     andthen (py_get geocode (asc ''city'') (PStr [])) (\<lambda>city.
     andthen (py_get geocode (asc ''district'') (PStr [])) (\<lambda>district.
       Inr (components_of province (py_or city province) district (PStr [])))))"

definition with_street :: "pyv \<Rightarrow> pydict \<Rightarrow> pydict result" where
  "with_street geocode components =
     andthen (py_get geocode (asc ''formatted_address'') (PStr [])) (\<lambda>formatted_address.
       if truthy formatted_address
       then andthen (extract_possible_street formatted_address
                       [field components (asc ''province''), field components (asc ''city''),
                        field components (asc ''district'')]) (\<lambda>street.
              Inr (if street \<noteq> [] then components(asc ''street'' \<mapsto> PStr street) else components))
       else Inr components)"

definition with_weather :: "env \<Rightarrow> pyv \<Rightarrow> pydict \<Rightarrow> gateway \<Rightarrow> pydict result \<times> gateway" where
  \<comment> \<open>\<open>if geocode.get('adcode'): components['weather'] = ...\<close>\<close>
  "with_weather ev geocode components s =
     (case py_get geocode (asc ''adcode'') PNone of
        Inl e \<Rightarrow> (Inl e, s)
      | Inr adcode \<Rightarrow>
          if truthy adcode
          then (let (w, s1) = get_weather_info ev adcode s
                in (Inr (components(asc ''weather'' \<mapsto> w)), s1))
          else (Inr components, s))"

definition geocode_branch :: "env \<Rightarrow> ustring \<Rightarrow> pyv \<Rightarrow> gateway \<Rightarrow> pydict result \<times> gateway" where
  \<comment> \<open>the branch of \<open>_parse_address_by_text\<close> on the first geocode\<close>
  "geocode_branch ev clean_address geocode s =
     (case andthen (geocode_components geocode) (with_street geocode) of
        Inl e \<Rightarrow> (Inl e, s)
      | Inr components \<Rightarrow>
          (case extract_building_info ev clean_address components s of
             (Inl e, s1) \<Rightarrow> (Inl e, s1)
           | (Inr building_info, s1) \<Rightarrow>
               with_weather ev geocode (with_contact clean_address (components ++ building_info)) s1))"

definition first_geocode :: "pyv \<Rightarrow> pyv option result" where
  \<comment> \<open>the test on the geocode response and the first candidate\<close>
  "first_geocode geo_result =
     andthen (py_get geo_result (asc ''status'') PNone) (\<lambda>status.
       if status \<noteq> PStr (asc ''1'') then Inr None
       else andthen (py_get geo_result (asc ''geocodes'') PNone) (\<lambda>geocodes.
         if \<not> truthy geocodes then Inr None
         else andthen (py_item geo_result (asc ''geocodes'')) (\<lambda>gs.
              andthen (py_first gs) (\<lambda>geocode. Inr (Some geocode)))))"

definition text_body :: "env \<Rightarrow> ustring \<Rightarrow> gateway \<Rightarrow> pydict option result \<times> gateway" where
  \<comment> \<open>the \<open>try\<close> block of \<open>_parse_address_by_text\<close>; \<open>Inr None\<close> when it ends without
      \<open>return\<close>\<close>
  "text_body ev address s =
     (let (clean_address, s1) = clean_address_string ev address s;
          (district_info, s2) = get_district_by_name ev clean_address s1
      in case (case district_info of
                 None \<Rightarrow> None
               | Some info \<Rightarrow> if truthy (di_province info) then Some info else None) of
           Some info \<Rightarrow>
             (let (components, s3) = district_branch ev clean_address info s2
              in (Inr (Some components), s3))
         | None \<Rightarrow>
             (let (geo_result, s3) = geo_code ev clean_address s2
              in case first_geocode geo_result of
                   Inl e \<Rightarrow> (Inl e, s3)
                 | Inr None \<Rightarrow> (Inr None, s3)
                 | Inr (Some geocode) \<Rightarrow>
                     (case geocode_branch ev clean_address geocode s3 of
                        (Inl e, s4) \<Rightarrow> (Inl e, s4)
                      | (Inr components, s4) \<Rightarrow> (Inr (Some components), s4))))"

definition parse_address_by_text :: "env \<Rightarrow> ustring \<Rightarrow> gateway \<Rightarrow> pydict \<times> gateway" where
  "parse_address_by_text ev address s =
     (case text_body ev address s of
        (Inr (Some components), s') \<Rightarrow> (components, s')
      | (_, s') \<Rightarrow> (empty_components, s'))"

definition regeo_resolved :: "pyv \<Rightarrow> bool result" where
  \<comment> \<open>\<open>regeo_result.get('status') == '1' and regeo_result.get('regeocode')\<close>\<close>
  "regeo_resolved regeo_result =
     andthen (py_get regeo_result (asc ''status'') PNone) (\<lambda>status.
       if status \<noteq> PStr (asc ''1'') then Inr False
       else andthen (py_get regeo_result (asc ''regeocode'') PNone) (\<lambda>regeocode.
              Inr (truthy regeocode)))"

definition regeo_components :: "pyv \<Rightarrow> (pyv \<times> pydict) result" where
  \<comment> \<open>the address component of the response and the dict made from it\<close>
  "regeo_components regeo_result =
     andthen (py_item regeo_result (asc ''regeocode'')) (\<lambda>regeo.
     andthen (py_get regeo (asc ''addressComponent'') (PDict [])) (\<lambda>address_component.
     andthen (py_get address_component (asc ''province'') (PStr [])) (\<lambda>province.
     andthen (py_get address_component (asc ''city'') (PStr [])) (\<lambda>city.
     andthen (py_get address_component (asc ''district'') (PStr [])) (\<lambda>district.
     andthen (py_get address_component (asc ''township'') (PStr [])) (\<lambda>township.
       Inr (address_component, components_of province (py_or city province) district township)))))))"

definition coordinate_branch :: "env \<Rightarrow> ustring \<Rightarrow> pyv \<Rightarrow> gateway \<Rightarrow> pydict result \<times> gateway" where
  \<comment> \<open>the branch of \<open>parse_address\<close> on a resolved reverse geocode; the weather it fetches
      is bound to the local \<open>weather_info\<close>\<close>
  "coordinate_branch ev address regeo_result s =
     (case regeo_components regeo_result of
        Inl e \<Rightarrow> (Inl e, s)
      | Inr (address_component, components) \<Rightarrow>
          (case (if address \<noteq> []
                 then (case extract_building_info ev address (with_contact address components) s of
                         (Inl e, s1) \<Rightarrow> (Inl e, s1)
                       | (Inr building_info, s1) \<Rightarrow>
                           (Inr (with_contact address components ++ building_info), s1))
                 else (Inr components, s)) of
             (Inl e, s1) \<Rightarrow> (Inl e, s1)
           | (Inr components1, s1) \<Rightarrow>
               (case py_get address_component (asc ''adcode'') PNone of
                  Inl e \<Rightarrow> (Inl e, s1)
                | Inr adcode \<Rightarrow>
                    if truthy adcode
                    then (let (weather_info, s2) = get_weather_info ev adcode s1
                          in (Inr components1, s2))
                    else (Inr components1, s1))))"

definition address_body :: "env \<Rightarrow> ustring \<Rightarrow> ustring option \<Rightarrow> ustring option \<Rightarrow> gateway \<Rightarrow> pydict result \<times> gateway" where
  \<comment> \<open>the \<open>try\<close> block of \<open>parse_address\<close>\<close>
  "address_body ev address coordinates coordsys s =
     (let (clean_address, s1) = clean_address_string ev address s;
          (location, s2) = locate ev coordinates coordsys s1
      in if truthy location
         then (let (regeo_result, s3) = regeo_code ev location s2
               in case regeo_resolved regeo_result of
                    Inl e \<Rightarrow> (Inl e, s3)
                  | Inr True \<Rightarrow> coordinate_branch ev address regeo_result s3
                  | Inr False \<Rightarrow>
                      (let (components, s4) = parse_address_by_text ev address s3
                       in (Inr components, s4)))
         else (let (components, s3) = parse_address_by_text ev address s2
               in (Inr components, s3)))"

definition parse_address :: "env \<Rightarrow> ustring \<Rightarrow> ustring option \<Rightarrow> ustring option \<Rightarrow> gateway \<Rightarrow> pydict \<times> gateway" where
  "parse_address ev address coordinates coordsys s =
     (case address_body ev address coordinates coordsys s of
        (Inl e, s') \<Rightarrow> (empty_components, s')
      | (Inr components, s') \<Rightarrow> (components, s'))"

definition complete_address :: "env \<Rightarrow> ustring \<Rightarrow> gateway \<Rightarrow> pydict \<times> gateway" where
  "complete_address ev address_string s = parse_address ev address_string None None s"

section \<open>Choosing among points of interest\<close>

fun split_on :: "nat \<Rightarrow> ustring \<Rightarrow> ustring list" where
  \<comment> \<open>\<open>s.split(sep)\<close> with a one-character separator: empty pieces are kept\<close>
  "split_on sep [] = [[]]"
| "split_on sep (c # s) =
     (if c = sep then [] # split_on sep s
      else (case split_on sep s of [] \<Rightarrow> [[c]] | t # ts \<Rightarrow> (c # t) # ts))"

definition name_score :: "pyv \<Rightarrow> ustring \<Rightarrow> nat result" where
  "name_score poi address =
     andthen (py_get poi (asc ''name'') PNone) (\<lambda>name.
     andthen (str_in name address) (\<lambda>hit.
       Inr (if hit then 5 + (if name = PStr address then 3 else 0) else 0)))"

definition address_score :: "pyv \<Rightarrow> ustring \<Rightarrow> nat result" where
  "address_score poi address =
     andthen (py_get poi (asc ''address'') PNone) (\<lambda>a.
       if truthy a
       then andthen (str_in a address) (\<lambda>hit.
              if hit then Inr 3
              else (case a of PStr t \<Rightarrow> Inr (if py_in address t then 2 else 0) | _ \<Rightarrow> Inl TypeError))
       else Inr 0)"

definition adname_score :: "pyv \<Rightarrow> ustring \<Rightarrow> nat result" where
  "adname_score poi address =
     andthen (py_get poi (asc ''adname'') PNone) (\<lambda>adname.
     andthen (str_in adname address) (\<lambda>hit. Inr (if hit then 2 else 0)))"

definition business_score :: "pyv \<Rightarrow> ustring \<Rightarrow> nat result" where
  "business_score poi address =
     andthen (py_get poi (asc ''business'') (PDict [])) (\<lambda>business.
     andthen (py_get business (asc ''business_area'') PNone) (\<lambda>area.
       if truthy area
       then andthen (py_item poi (asc ''business'')) (\<lambda>b.
            andthen (py_item b (asc ''business_area'')) (\<lambda>a.
            andthen (str_in a address) (\<lambda>hit. Inr (if hit then 1 else 0))))
       else Inr 0))"

definition type_score :: "pyv \<Rightarrow> ustring \<Rightarrow> nat result" where
  \<comment> \<open>only a text has \<open>split\<close>\<close>
  "type_score poi address =
     andthen (py_get poi (asc ''type'') PNone) (\<lambda>ty.
       if truthy ty
       then (case ty of
               PStr t \<Rightarrow> Inr (if list_ex (\<lambda>tag. py_in tag address) (split_on 0x3B t) then 1 else 0)
             | _ \<Rightarrow> Inl AttributeError)
       else Inr 0)"

definition alias_score :: "pyv \<Rightarrow> ustring \<Rightarrow> nat result" where
  "alias_score poi address =
     andthen (py_get poi (asc ''alias'') PNone) (\<lambda>alias.
       if truthy alias
       then andthen (str_in alias address) (\<lambda>hit. Inr (if hit then 1 else 0))
       else Inr 0)"

definition children_score :: "pyv \<Rightarrow> ustring \<Rightarrow> nat result" where
  "children_score poi address =
     andthen (py_get poi (asc ''children'') PNone) (\<lambda>children.
       if truthy children
       then andthen (py_iter children) (\<lambda>cs.
            andthen (each (\<lambda>child. andthen (py_get child (asc ''name'') PNone)
                                     (\<lambda>name. str_in name address)) cs) (\<lambda>hits.
              Inr (2 * length (filter (\<lambda>hit. hit) hits))))
       else Inr 0)"

definition score_poi :: "ustring \<Rightarrow> pyv \<Rightarrow> (nat \<times> pyv) result" where
  \<comment> \<open>one round of the scoring loop\<close>
  "score_poi address poi =
     andthen (name_score poi address) (\<lambda>a.
     andthen (address_score poi address) (\<lambda>b.
     andthen (adname_score poi address) (\<lambda>c.
     andthen (business_score poi address) (\<lambda>d.
     andthen (type_score poi address) (\<lambda>e.
     andthen (alias_score poi address) (\<lambda>f.
     andthen (children_score poi address) (\<lambda>g.
       Inr (a + b + c + d + e + f + g, poi))))))))"

fun best :: "nat \<times> pyv \<Rightarrow> (nat \<times> pyv) list \<Rightarrow> nat \<times> pyv" where
  \<comment> \<open>\<open>max\<close> with a key: the first of the entries with the greatest score\<close>
  "best cur [] = cur"
| "best cur (x # xs) = (if fst cur < fst x then best x xs else best cur xs)"

definition find_best_poi_match :: "pyv list \<Rightarrow> ustring \<Rightarrow> pyv result" where
  "find_best_poi_match pois address =
     (if pois = [] then Inr PNone
      else andthen (each (score_poi address) pois) (\<lambda>scored_pois.
             case scored_pois of [] \<Rightarrow> Inr PNone | x # xs \<Rightarrow> Inr (snd (best x xs))))"

definition has_text :: "pyv \<Rightarrow> ustring \<Rightarrow> bool" where
  \<comment> \<open>the value is a dict that holds a text under the key\<close>
  "has_text poi k =
     (case poi of
        PDict kvs \<Rightarrow> (case map_of kvs k of Some (PStr t) \<Rightarrow> True | _ \<Rightarrow> False)
      | _ \<Rightarrow> False)"

section \<open>Successive requests\<close>

fun requests :: "env \<Rightarrow> ustring \<Rightarrow> (ustring \<times> pyv) list \<Rightarrow> nat \<Rightarrow> gateway \<Rightarrow> gateway" where
  \<comment> \<open>the gateway after \<open>n\<close> calls of \<open>_make_request\<close> in a row\<close>
  "requests ev path params 0 s = s"
| "requests ev path params (Suc n) s = requests ev path params n (snd (make_request ev path params s))"

section \<open>Properties of a parse\<close>

definition has_fields :: "pydict \<Rightarrow> bool" where
  \<comment> \<open>the nine text fields and the weather field are all present\<close>
  "has_fields r =
     (r (asc ''province'') \<noteq> None \<and> r (asc ''city'') \<noteq> None \<and> r (asc ''district'') \<noteq> None
      \<and> r (asc ''street'') \<noteq> None \<and> r (asc ''building'') \<noteq> None \<and> r (asc ''unit'') \<noteq> None
      \<and> r (asc ''room'') \<noteq> None \<and> r (asc ''name'') \<noteq> None \<and> r (asc ''phone'') \<noteq> None
      \<and> r (asc ''weather'') \<noteq> None)"

definition coordinate_lookup :: "env \<Rightarrow> ustring \<Rightarrow> ustring option \<Rightarrow> ustring option \<Rightarrow> gateway \<Rightarrow> pyv \<times> pyv" where
  \<comment> \<open>the variable \<open>location\<close> of \<open>parse_address\<close> and the response to the reverse geocode
      made with it\<close>
  "coordinate_lookup ev address coordinates coordsys s =
     (let (clean_address, s1) = clean_address_string ev address s;
          (location, s2) = locate ev coordinates coordsys s1
      in (location, fst (regeo_code ev location s2)))"

definition is_text_at :: "pydict \<Rightarrow> ustring \<Rightarrow> bool" where
  "is_text_at r k = (case r k of Some (PStr t) \<Rightarrow> True | _ \<Rightarrow> False)"

definition derived_texts :: "pydict \<Rightarrow> bool" where
  \<comment> \<open>the six fields that the program computes from the text hold texts\<close>
  "derived_texts r =
     (is_text_at r (asc ''street'') \<and> is_text_at r (asc ''building'') \<and> is_text_at r (asc ''unit'')
      \<and> is_text_at r (asc ''room'') \<and> is_text_at r (asc ''name'') \<and> is_text_at r (asc ''phone''))"

section \<open>Example worlds\<close>

definition quiet :: env where
  \<comment> \<open>an environment in which every exchange fails\<close>
  "quiet = \<lparr>observe = (\<lambda>n. \<lparr>obs_date = asc ''2025-01-02'', obs_time = 1, obs_time_after = 1,
                                 obs_response = (\<lambda>rq. Failed)\<rparr>),
            str_of = (\<lambda>v. []), exc_text = (\<lambda>e. [])\<rparr>"

definition answering :: "pyv \<Rightarrow> env" where
  \<comment> \<open>an environment in which every exchange yields the same decoded body\<close>
  "answering body = quiet\<lparr>observe := (\<lambda>n. \<lparr>obs_date = asc ''2025-01-02'', obs_time = 1,
                                              obs_time_after = 1, obs_response = (\<lambda>rq. Decoded body)\<rparr>)\<rparr>"

definition bad_key_body :: pyv where
  \<comment> \<open>the provider rejecting the key\<close>
  "bad_key_body = PDict [(asc ''status'', PStr (asc ''0'')), (asc ''info'', PStr (asc ''INVALID_USER_KEY'')),
                         (asc ''infocode'', PStr (asc ''10001''))]"

definition ok_body :: pyv where
  \<comment> \<open>a response that only says the request succeeded\<close>
  "ok_body = PDict [(asc ''status'', PStr (asc ''1''))]"

definition linxian_body :: pyv where
  \<comment> \<open>a district response that places Linxian county (U+4E34 U+53BF) in Shanxi province,
      Lvliang city\<close>
  "linxian_body =
     PDict [(asc ''status'', PStr (asc ''1'')),
            (asc ''districts'',
             PList [PDict [(asc ''province'', PStr [0x5C71, 0x897F, 0x7701]),
                           (asc ''cityname'', PStr [0x5415, 0x6881, 0x5E02]),
                           (asc ''name'', PStr [0x4E34, 0x53BF]),
                           (asc ''adcode'', PStr (asc ''141124''))]])]"

definition counted :: "ustring \<Rightarrow> ustring \<Rightarrow> gateway \<Rightarrow> nat" where
  \<comment> \<open>the calls to a path that the gateway has counted on the given date\<close>
  "counted d path s =
     (if quota_date s = Some d then (case quota_counter s path of None \<Rightarrow> 0 | Some k \<Rightarrow> k) else 0)"

definition regeo_body :: pyv where
  \<comment> \<open>a reverse geocode that resolves to Beijing, with an adcode\<close>
  "regeo_body =
     PDict [(asc ''status'', PStr (asc ''1'')),
            (asc ''regeocode'',
             PDict [(asc ''addressComponent'',
                     PDict [(asc ''province'', PStr [0x5317, 0x4EAC, 0x5E02]),
                            (asc ''adcode'', PStr (asc ''110000''))])])]"

definition array_body :: pyv where
  \<comment> \<open>a body that decodes to a JSON array instead of an object\<close>
  "array_body = PList [PNone]"

definition city_geocode :: pyv where
  \<comment> \<open>a geocode that resolves a text to the city of Beijing only: the district is the empty
      list, as the provider sends for a level that does not apply\<close>
  "city_geocode =
     PDict [(asc ''formatted_address'', PStr [0x5317, 0x4EAC, 0x5E02]),
            (asc ''province'', PStr [0x5317, 0x4EAC, 0x5E02]),
            (asc ''city'', PStr [0x5317, 0x4EAC, 0x5E02]),
            (asc ''district'', PList []),
            (asc ''adcode'', PStr (asc ''110000''))]"

definition city_body :: pyv where
  \<comment> \<open>the response that holds this geocode\<close>
  "city_body = PDict [(asc ''status'', PStr (asc ''1'')), (asc ''geocodes'', PList [city_geocode])]"

section \<open>Evaluation rules\<close>

lemma UpTo_numeral [simp]: "UpTo (numeral k) r = Opt (Seq r (UpTo (pred_numeral k) r))"
  by (simp add: numeral_eq_Suc)

lemma Rep_numeral [simp]: "Rep (numeral k) n r = Seq r (Rep (pred_numeral k) (n - 1) r)"
  by (simp add: numeral_eq_Suc)

lemma AtLeast_numeral [simp]: "AtLeast (numeral k) r = Seq r (AtLeast (pred_numeral k) r)"
  by (simp add: numeral_eq_Suc)

lemmas cls_defs = digit_cls_def han_cls_def space_cls_def chars_def

declare sub_from.simps [simp del]

declare finditer_from.simps [simp del]

lemmas re_defs = re_search_def re_sub_def re_finditer_def mk_match_def Opt_def Plus_def
  sub_from.simps finditer_from.simps

lemmas py_defs = py_replace_def py_strip_def is_space_def py_split_def asc_def

lemmas world_defs = quiet_def answering_def

section \<open>Contact extraction\<close>

text \<open>
  C6. On the text U+5F20 U+5148 U+751F \<open>13812345678\<close> U+9001 U+8D27 (Mr Zhang, the number,
  "deliver") the extractor finds the phone number and no name. The number is cut out of
  the text before the name is looked for, so the honorific is followed by U+9001 and not
  by the number; the first candidate the name pattern accepts is the three characters
  that end the text, and they do not start with a listed surname.
\<close>

theorem extract_contact_info_mr_zhang:
  "extract_contact_info
     [0x5F20, 0x5148, 0x751F, 0x31, 0x33, 0x38, 0x31, 0x32, 0x33, 0x34, 0x35, 0x36, 0x37, 0x38,
      0x9001, 0x8D27]
   = ([], [0x31, 0x33, 0x38, 0x31, 0x32, 0x33, 0x34, 0x35, 0x36, 0x37, 0x38])"
  by (simp add: extract_contact_info_def phone_rx_def name_rx_def honorific_rx_def cls_defs
        re_defs py_defs invalid_keywords_def common_surnames_def)

section \<open>The gateway\<close>

text \<open>
  C4. The provider answers with status \<open>0\<close>, code \<open>10001\<close> and its own text. \<open>_check_response\<close>
  raises the error with that code and the message of the table, inside the \<open>try\<close> block of
  \<open>_make_request\<close>, whose last handler catches it: the caller gets an error with code
  \<open>30000\<close>, and the code and the message of the table only as part of its message
  (request failed: error code 10001: the key is wrong or has expired).
\<close>

theorem make_request_rejected_key:
  "fst (make_request (answering bad_key_body) (asc ''/v3/ip'') [(asc ''key'', PStr [])] init)
   = Inl (AmapError (PStr (asc ''30000''))
           (PStr ([0x8BF7, 0x6C42, 0x5931, 0x8D25, 0x3A, 0x20] @ [0x9519, 0x8BEF, 0x7801, 0x20]
                  @ asc ''10001'' @ [0x3A, 0x20]
                  @ [0x41, 0x50, 0x49, 0x5BC6, 0x94A5, 0x4E0D, 0x6B63, 0x786E, 0x6216, 0x5DF2,
                     0x8FC7, 0x671F])))"
  by (simp add: make_request_def request_body_def check_quota_def quota_of_def init_def
        world_defs bad_key_body_def rate_limit_def check_response_def andthen_def table_get_def
        ERROR_MESSAGES_def request_failed_def exn_str_def py_str_def asc_def)

text \<open>
  C5. \<open>_geo_code\<close> and \<open>_regeo_code\<close> open a connection of their own and never enter
  \<open>_make_request\<close>: whatever the exchange yields, the time of the last request, the
  request count, the quota counters and the quota date are those from before the call.
\<close>

theorem geo_code_leaves_bookkeeping:
  "last_request_time (snd (geo_code ev address s)) = last_request_time s
   \<and> request_count (snd (geo_code ev address s)) = request_count s
   \<and> quota_counter (snd (geo_code ev address s)) = quota_counter s
   \<and> quota_date (snd (geo_code ev address s)) = quota_date s
   \<and> last_request_time (snd (regeo_code ev location s)) = last_request_time s
   \<and> request_count (snd (regeo_code ev location s)) = request_count s
   \<and> quota_counter (snd (regeo_code ev location s)) = quota_counter s
   \<and> quota_date (snd (regeo_code ev location s)) = quota_date s"
  by (simp add: geo_code_def regeo_code_def direct_request_def split: outcome.splits)

section \<open>The daily quota\<close>

text \<open>
  The counter of a path grows by one with every call, whether the call then succeeds or
  not; a call passes the quota check exactly when the count, this call included, is within
  the limit of the path; a date other than the stored one starts the count again.
\<close>

lemma check_quota_counted:
  "obs_date ob = d \<Longrightarrow>
   counted d path (snd (check_quota ob path s)) = counted d path s + 1
   \<and> fst (check_quota ob path s) = (counted d path s + 1 \<le> quota_of path)
   \<and> quota_date (snd (check_quota ob path s)) = Some d"
  by (auto simp: check_quota_def counted_def Let_def split: option.splits)

lemma check_quota_frame:
  "clock (snd (check_quota ob path s)) = clock s"
  by (simp add: check_quota_def Let_def)

lemma request_body_quota:
  "quota_counter (snd (request_body ev path params s))
     = quota_counter (snd (check_quota (observe ev (clock s)) path (s\<lparr>clock := clock s + 1\<rparr>)))
   \<and> quota_date (snd (request_body ev path params s))
     = quota_date (snd (check_quota (observe ev (clock s)) path (s\<lparr>clock := clock s + 1\<rparr>)))
   \<and> clock (snd (request_body ev path params s)) = clock s + 1"
proof -
  obtain ok s1 where cq: "check_quota (observe ev (clock s)) path (s\<lparr>clock := clock s + 1\<rparr>) = (ok, s1)"
    by fastforce
  have "clock s1 = clock s + 1"
    using check_quota_frame [of "observe ev (clock s)" path "s\<lparr>clock := clock s + 1\<rparr>"] cq by simp
  then show ?thesis
    using cq by (simp add: request_body_def Let_def rate_limit_def split: outcome.splits)
qed

lemma snd_make_request: "snd (make_request ev path params s) = snd (request_body ev path params s)"
  by (simp add: make_request_def split: prod.splits sum.splits exn.splits)

lemma counted_cong:
  "quota_counter s = quota_counter t \<Longrightarrow> quota_date s = quota_date t \<Longrightarrow> counted d path s = counted d path t"
  by (simp add: counted_def)

lemma make_request_counted:
  assumes "obs_date (observe ev (clock s)) = d"
  shows "counted d path (snd (make_request ev path params s)) = counted d path s + 1"
proof -
  let ?c = "snd (check_quota (observe ev (clock s)) path (s\<lparr>clock := clock s + 1\<rparr>))"
  have "counted d path (snd (make_request ev path params s)) = counted d path ?c"
    using request_body_quota [of ev path params s]
    by (intro counted_cong) (simp_all add: snd_make_request)
  also have "\<dots> = counted d path (s\<lparr>clock := clock s + 1\<rparr>) + 1"
    using check_quota_counted [OF assms] by simp
  also have "counted d path (s\<lparr>clock := clock s + 1\<rparr>) = counted d path s"
    by (simp add: counted_def)
  finally show ?thesis .
qed

lemma requests_counted:
  "(\<And>k. obs_date (observe ev k) = d) \<Longrightarrow>
   counted d path (requests ev path params n s) = counted d path s + n"
  by (induction n arbitrary: s) (simp_all add: make_request_counted)

lemma make_request_over:
  assumes "obs_date (observe ev (clock s)) = d" and "quota_of path \<le> counted d path s"
  shows "fst (make_request ev path params s) = Inl (request_failed ev quota_exceeded)"
proof -
  obtain ok s1 where cq: "check_quota (observe ev (clock s)) path (s\<lparr>clock := clock s + 1\<rparr>) = (ok, s1)"
    by fastforce
  have c: "counted d path (s\<lparr>clock := clock s + 1\<rparr>) = counted d path s"
    by (simp add: counted_def)
  have "\<not> ok"
    using check_quota_counted [OF assms(1), of path "s\<lparr>clock := clock s + 1\<rparr>"] assms(2) c cq by simp
  then show ?thesis
    using cq by (simp add: make_request_def request_body_def Let_def quota_exceeded_def)
qed

lemma make_request_within:
  assumes "obs_date (observe ev (clock s)) = d" and "counted d path s < quota_of path"
    and "obs_response (observe ev (clock s)) (path, params) = Decoded result"
    and "check_response result = Inr ()"
  shows "fst (make_request ev path params s) = Inr result"
proof -
  obtain ok s1 where cq: "check_quota (observe ev (clock s)) path (s\<lparr>clock := clock s + 1\<rparr>) = (ok, s1)"
    by fastforce
  have c: "counted d path (s\<lparr>clock := clock s + 1\<rparr>) = counted d path s"
    by (simp add: counted_def)
  have "ok"
    using check_quota_counted [OF assms(1), of path "s\<lparr>clock := clock s + 1\<rparr>"] assms(2) c cq by simp
  then show ?thesis
    using cq assms(3,4) by (simp add: make_request_def request_body_def Let_def andthen_def)
qed

lemma counted_new_day: "quota_date s \<noteq> Some d \<Longrightarrow> counted d path s = 0"
  by (simp add: counted_def)

text \<open>
  C3. A hundred calls to the search path \<open>/v3/place/text\<close> on one day, each answered with
  success, and then one more: the quota check raises the error with code \<open>10003\<close> (over
  the daily quota) inside the \<open>try\<close> block, and the last handler of \<open>_make_request\<close> wraps
  it. The caller gets an error with code \<open>30000\<close> whose message is "request failed: error
  code 10003: over the daily quota".
\<close>

theorem make_request_over_quota:
  "fst (make_request (answering ok_body) (asc ''/v3/place/text'') []
         (requests (answering ok_body) (asc ''/v3/place/text'') [] 100 init))
   = Inl (AmapError (PStr (asc ''30000''))
           (PStr [0x8BF7, 0x6C42, 0x5931, 0x8D25, 0x3A, 0x20, 0x9519, 0x8BEF, 0x7801, 0x20, 0x31, 0x30, 0x30, 0x30, 0x33, 0x3A, 0x20, 0x8D85, 0x51FA, 0x65E5, 0x914D, 0x989D, 0x9650, 0x5236]))"
proof -
  let ?ev = "answering ok_body" and ?p = "asc ''/v3/place/text''" and ?d = "asc ''2025-01-02''"
  have date: "\<And>k. obs_date (observe ?ev k) = ?d"
    by (simp add: world_defs)
  have q: "quota_of ?p = 100"
    by (simp add: quota_of_def asc_def)
  have "counted ?d ?p (requests ?ev ?p [] 100 init) = counted ?d ?p init + 100"
    using date by (rule requests_counted)
  then have "quota_of ?p \<le> counted ?d ?p (requests ?ev ?p [] 100 init)"
    using q by simp
  then have "fst (make_request ?ev ?p [] (requests ?ev ?p [] 100 init))
             = Inl (request_failed ?ev quota_exceeded)"
    using date make_request_over by blast
  then show ?thesis
    by (simp add: request_failed_def quota_exceeded_def exn_str_def py_str_def asc_def)
qed

section \<open>Cleaning a cleaned text\<close>

text \<open>
  The text \<open>_clean_address_string\<close> returns is made of parts that are not empty, hold no
  space and differ from one another, joined by single blanks. On such a text the steps
  that deal with white space and with repeated parts change nothing; the four rewriting
  steps change nothing when their patterns are not found in it.
\<close>

lemma sub_no_match: "search_from r p s = None \<Longrightarrow> sub_from r repl p s = s"
proof (induction s arbitrary: p)
  case Nil
  then show ?case by (subst sub_from.simps) (simp split: list.splits)
next
  case (Cons c s)
  from Cons.prems have m: "matches r (p, c # s, []) = []" and n: "search_from r (c # p) s = None"
    by (simp_all split: list.splits)
  show ?case
    by (subst sub_from.simps) (simp add: m Cons.IH [OF n])
qed

lemma re_sub_no_match: "re_search r s = None \<Longrightarrow> re_sub r repl s = s"
  by (simp add: re_search_def re_sub_def sub_no_match)

lemma search_plus_cls_none:
  "\<forall>c\<in>set s. \<not> in_cls c cs \<Longrightarrow> search_from (Plus (Cls cs)) p s = None"
  by (induction s arbitrary: p) (simp_all add: Plus_def)

lemma is_space_blank: "is_space 0x20"
  by (simp add: is_space_def space_cls_def)

lemma in_chars: "in_cls c (chars cs) = (c \<in> set cs)"
  by (induction cs) (auto simp: chars_def)

lemma blank_is_space:
  assumes "in_cls c (chars [0xD, 0xA, 0x9, 0x3000, 0xA0])"
  shows "is_space c \<and> c \<noteq> 0x20"
proof -
  from assms have "c = 0xD \<or> c = 0xA \<or> c = 0x9 \<or> c = 0x3000 \<or> c = 0xA0"
    by (simp add: in_chars)
  then show ?thesis
    by (elim disjE) (simp_all add: is_space_def space_cls_def)
qed


lemma split_acc_words:
  "(\<forall>c\<in>set cur. \<not> is_space c) \<Longrightarrow> t \<in> set (split_acc cur s) \<Longrightarrow>
   t \<noteq> [] \<and> (\<forall>c\<in>set t. \<not> is_space c)"
proof (induction s arbitrary: cur)
  case Nil
  then show ?case by (auto split: if_splits)
next
  case (Cons c s)
  show ?case
  proof (cases "is_space c")
    case True
    with Cons.prems have "t = rev cur \<and> cur \<noteq> [] \<or> t \<in> set (split_acc [] s)"
      by (auto split: if_splits)
    then show ?thesis
    proof
      assume "t = rev cur \<and> cur \<noteq> []"
      with Cons.prems(1) show ?thesis by auto
    next
      assume "t \<in> set (split_acc [] s)"
      then show ?thesis using Cons.IH [of "[]"] by simp
    qed
  next
    case False
    with Cons.prems have "t \<in> set (split_acc (c # cur) s)" by simp
    moreover have "\<forall>d\<in>set (c # cur). \<not> is_space d" using False Cons.prems(1) by simp
    ultimately show ?thesis using Cons.IH [of "c # cur"] by blast
  qed
qed

lemma py_split_words: "t \<in> set (py_split s) \<Longrightarrow> t \<noteq> [] \<and> (\<forall>c\<in>set t. \<not> is_space c)"
  using split_acc_words [of "[]" t s] by (simp add: py_split_def)

lemma set_dedupe: "set (dedupe seen xs) \<subseteq> set xs"
  by (induction xs arbitrary: seen) auto

lemma dedupe_fresh: "set (dedupe seen xs) \<inter> set seen = {}"
proof (induction xs arbitrary: seen)
  case Nil
  show ?case by simp
next
  case (Cons x xs)
  show ?case using Cons.IH [of seen] Cons.IH [of "x # seen"] by auto
qed

lemma distinct_dedupe: "distinct (dedupe seen xs)"
proof (induction xs arbitrary: seen)
  case Nil
  show ?case by simp
next
  case (Cons x xs)
  show ?case using Cons.IH [of seen] Cons.IH [of "x # seen"] dedupe_fresh [of "x # seen" xs] by auto
qed

lemma dedupe_id: "distinct xs \<Longrightarrow> set xs \<inter> set seen = {} \<Longrightarrow> dedupe seen xs = xs"
  by (induction xs arbitrary: seen) auto

lemma split_acc_word:
  "\<forall>c\<in>set w. \<not> is_space c \<Longrightarrow> split_acc cur (w @ rest) = split_acc (rev w @ cur) rest"
  by (induction w arbitrary: cur) simp_all

lemma split_join:
  "\<forall>t\<in>set ts. t \<noteq> [] \<and> (\<forall>c\<in>set t. \<not> is_space c) \<Longrightarrow> split_acc [] (py_join [0x20] ts) = ts"
proof (induction "[0x20::nat]" ts rule: py_join.induct)
  case 1
  show ?case by simp
next
  case (2 t)
  then show ?case using split_acc_word [of t "[]" "[]"] by simp
next
  case (3 t u ts)
  have "split_acc [] (py_join [0x20] (t # u # ts)) = split_acc (rev t) (0x20 # py_join [0x20] (u # ts))"
    using 3(2) split_acc_word [of t "[]" "0x20 # py_join [0x20] (u # ts)"] by simp
  also have "\<dots> = t # split_acc [] (py_join [0x20] (u # ts))"
    using 3(2) by (simp add: is_space_blank)
  also have "split_acc [] (py_join [0x20] (u # ts)) = u # ts"
    using 3 by simp
  finally show ?case .
qed


lemma matches_spaces_none: "\<not> is_space c \<Longrightarrow> matches spaces_rx (p, c # s, g) = []"
  by (simp add: spaces_rx_def Plus_def is_space_def)

lemma sub_spaces_word:
  "\<forall>c\<in>set w. \<not> is_space c \<Longrightarrow>
   sub_from spaces_rx repl p (w @ rest) = w @ sub_from spaces_rx repl (rev w @ p) rest"
proof (induction w arbitrary: p)
  case Nil
  show ?case by simp
next
  case (Cons c w)
  have "sub_from spaces_rx repl p ((c # w) @ rest) = c # sub_from spaces_rx repl (c # p) (w @ rest)"
    using Cons.prems by (subst sub_from.simps) (simp add: matches_spaces_none)
  then show ?case using Cons by simp
qed

lemma sub_spaces_end: "sub_from spaces_rx repl p [] = []"
  by (subst sub_from.simps) (simp add: spaces_rx_def Plus_def)

lemma sub_spaces_blank:
  "\<not> is_space c \<Longrightarrow>
   sub_from spaces_rx [RLit [0x20]] p (0x20 # c # rest)
   = 0x20 # sub_from spaces_rx [RLit [0x20]] (0x20 # p) (c # rest)"
  using is_space_blank
  by (subst sub_from.simps) (simp add: spaces_rx_def Plus_def is_space_def)

lemma join_Cons:
  "t \<noteq> [] \<Longrightarrow> \<exists>rest. py_join sep (t # ts) = hd t # rest"
  by (cases t; cases ts) auto

lemma sub_spaces_join:
  "\<forall>t\<in>set ts. t \<noteq> [] \<and> (\<forall>c\<in>set t. \<not> is_space c) \<Longrightarrow>
   sub_from spaces_rx [RLit [0x20]] p (py_join [0x20] ts) = py_join [0x20] ts"
proof (induction "[0x20::nat]" ts arbitrary: p rule: py_join.induct)
  case 1
  show ?case by (simp add: sub_spaces_end)
next
  case (2 t)
  then show ?case using sub_spaces_word [of t "[RLit [0x20]]" p "[]"] by (simp add: sub_spaces_end)
next
  case (3 t u ts)
  from 3(2) have u: "u \<noteq> []" and hu: "\<not> is_space (hd u)" by auto
  obtain rest where r: "py_join [0x20] (u # ts) = hd u # rest"
    using join_Cons [OF u] by blast
  have "sub_from spaces_rx [RLit [0x20]] p (py_join [0x20] (t # u # ts))
        = t @ sub_from spaces_rx [RLit [0x20]] (rev t @ p) (0x20 # hd u # rest)"
    using 3(2) sub_spaces_word [of t "[RLit [0x20]]" p "0x20 # hd u # rest"] r by simp
  also have "\<dots> = t @ 0x20 # sub_from spaces_rx [RLit [0x20]] (0x20 # rev t @ p) (hd u # rest)"
    using hu by (simp add: sub_spaces_blank)
  also have "sub_from spaces_rx [RLit [0x20]] (0x20 # rev t @ p) (hd u # rest) = py_join [0x20] (u # ts)"
    using 3(1) [of "0x20 # rev t @ p"] 3(2) r by simp
  finally show ?case by simp
qed

lemma join_chars:
  "c \<in> set (py_join [0x20] ts) \<Longrightarrow> c = 0x20 \<or> (\<exists>t\<in>set ts. c \<in> set t)"
  by (induction "[0x20::nat]" ts rule: py_join.induct) auto

lemma join_no_blank:
  assumes "\<forall>t\<in>set ts. t \<noteq> [] \<and> (\<forall>c\<in>set t. \<not> is_space c)"
  shows "\<forall>c\<in>set (py_join [0x20] ts). \<not> in_cls c (chars [0xD, 0xA, 0x9, 0x3000, 0xA0])"
proof
  fix c assume c: "c \<in> set (py_join [0x20] ts)"
  show "\<not> in_cls c (chars [0xD, 0xA, 0x9, 0x3000, 0xA0])"
  proof
    assume "in_cls c (chars [0xD, 0xA, 0x9, 0x3000, 0xA0])"
    then have "is_space c" and "c \<noteq> 0x20" using blank_is_space by blast+
    with join_chars [OF c] assms show False by blast
  qed
qed

lemma join_last:
  "ts \<noteq> [] \<Longrightarrow> last ts \<noteq> [] \<Longrightarrow> py_join sep ts \<noteq> [] \<and> last (py_join sep ts) = last (last ts)"
  by (induction sep ts rule: py_join.induct) auto

lemma strip_id: "s \<noteq> [] \<Longrightarrow> \<not> is_space (hd s) \<Longrightarrow> \<not> is_space (last s) \<Longrightarrow> py_strip s = s"
proof -
  assume s: "s \<noteq> []" and h: "\<not> is_space (hd s)" and l: "\<not> is_space (last s)"
  have 1: "dropWhile is_space s = s" using s h by (cases s) simp_all
  obtain ys y where ys: "s = ys @ [y]" using s by (cases s rule: rev_cases) auto
  then have 2: "dropWhile is_space (rev s) = rev s" using l by simp
  show ?thesis by (simp add: py_strip_def 1 2)
qed

lemma strip_join:
  assumes "\<forall>t\<in>set ts. t \<noteq> [] \<and> (\<forall>c\<in>set t. \<not> is_space c)"
  shows "py_strip (py_join [0x20] ts) = py_join [0x20] ts"
proof (cases ts)
  case Nil
  then show ?thesis by (simp add: py_strip_def)
next
  case (Cons t us)
  from assms Cons have t: "t \<noteq> []" "\<not> is_space (hd t)" by auto
  obtain rest where r: "py_join [0x20] (t # us) = hd t # rest"
    using join_Cons [OF t(1)] by blast
  have "last ts \<in> set ts" using Cons by simp
  then have l: "last ts \<noteq> []" and "\<forall>c\<in>set (last ts). \<not> is_space c"
    using assms by blast+
  then have l2: "\<not> is_space (last (last ts))"
    using last_in_set [of "last ts"] by blast
  have "py_join [0x20] ts \<noteq> []" "last (py_join [0x20] ts) = last (last ts)"
    using join_last [of ts "[0x20]"] l Cons by simp_all
  then show ?thesis using strip_id [of "py_join [0x20] ts"] r t(2) l2 Cons by simp
qed


lemma cleaned_parts_words:
  "\<forall>t\<in>set (cleaned_parts a). t \<noteq> [] \<and> (\<forall>c\<in>set t. \<not> is_space c)"
  using set_dedupe [of "[]" "py_split (cleaned_address a)"] py_split_words
  unfolding cleaned_parts_def by blast

lemma cleaned_address_settled:
  assumes w: "\<forall>t\<in>set ts. t \<noteq> [] \<and> (\<forall>c\<in>set t. \<not> is_space c)"
    and n: "no_match rewrite_patterns (py_join [0x20] ts)"
  shows "cleaned_address (py_join [0x20] ts) = py_join [0x20] ts"
proof -
  let ?y = "py_join [0x20] ts"
  have a1: "re_sub blank_rx [RLit [0x20]] ?y = ?y"
    unfolding blank_rx_def
    by (rule re_sub_no_match) (simp add: re_search_def search_plus_cls_none join_no_blank [OF w])
  have m: "re_search (municipality_rx 0x5317 0x4EAC) ?y = None"
       "re_search (municipality_rx 0x4E0A 0x6D77) ?y = None"
       "re_search (municipality_rx 0x5929 0x6D25) ?y = None"
       "re_search (municipality_rx 0x91CD 0x5E86) ?y = None"
       "re_search suffix_run_rx ?y = None"
       "re_search road_run_rx ?y = None"
       "re_search suffix_space_rx ?y = None"
    using n by (simp_all add: rewrite_patterns_def municipalities_def)
  have a2: "fold collapse_municipality municipalities ?y = ?y"
    by (simp add: municipalities_def collapse_municipality_def re_sub_no_match m)
  have a5: "re_sub spaces_rx [RLit [0x20]] ?y = ?y"
    by (simp add: re_sub_def sub_spaces_join [OF w])
  show ?thesis
    by (simp add: cleaned_address_def a1 a2 a5 re_sub_no_match m strip_join [OF w])
qed

lemma clean_settled:
  assumes "no_match rewrite_patterns (py_join [0x20] (cleaned_parts a))"
  shows "py_join [0x20] (cleaned_parts (py_join [0x20] (cleaned_parts a)))
         = py_join [0x20] (cleaned_parts a)"
proof -
  let ?ts = "cleaned_parts a"
  have w: "\<forall>t\<in>set ?ts. t \<noteq> [] \<and> (\<forall>c\<in>set t. \<not> is_space c)"
    by (rule cleaned_parts_words)
  have d: "distinct ?ts"
    by (simp add: cleaned_parts_def distinct_dedupe)
  have c: "cleaned_address (py_join [0x20] ?ts) = py_join [0x20] ?ts"
    by (rule cleaned_address_settled [OF w assms])
  have "cleaned_parts (py_join [0x20] ?ts) = dedupe [] (py_split (cleaned_address (py_join [0x20] ?ts)))"
    by (rule cleaned_parts_def)
  also have "\<dots> = dedupe [] (py_split (py_join [0x20] ?ts))"
    by (simp only: c)
  also have "py_split (py_join [0x20] ?ts) = ?ts"
    unfolding py_split_def by (rule split_join [OF w])
  also have "dedupe [] ?ts = ?ts"
    using d by (simp add: dedupe_id)
  finally show ?thesis by (simp only:)
qed

lemma fst_clean: "fst (clean_address_string ev address s) = py_join [0x20] (cleaned_parts address)"
  by (simp add: clean_address_string_def split: prod.splits)

text \<open>Evaluation of the rewriting steps one at a time.\<close>

lemma cleaned_address_steps:
  "re_sub blank_rx [RLit [0x20]] a = a1 \<Longrightarrow>
   collapse_municipality (0x5317, 0x4EAC) a1 = b1 \<Longrightarrow>
   collapse_municipality (0x4E0A, 0x6D77) b1 = b2 \<Longrightarrow>
   collapse_municipality (0x5929, 0x6D25) b2 = b3 \<Longrightarrow>
   collapse_municipality (0x91CD, 0x5E86) b3 = a2 \<Longrightarrow>
   re_sub suffix_run_rx [RGrp 1] a2 = a3 \<Longrightarrow>
   re_sub road_run_rx [RGrp 1] a3 = a4 \<Longrightarrow>
   re_sub spaces_rx [RLit [0x20]] a4 = a5 \<Longrightarrow>
   py_strip a5 = a6 \<Longrightarrow>
   re_sub suffix_space_rx [RGrp 1] a6 = a7 \<Longrightarrow>
   cleaned_address a = a7"
  by (simp add: cleaned_address_def municipalities_def)

lemmas step_defs = blank_rx_def collapse_municipality_def municipality_rx_def suffix_run_rx_def
  suffix_cls_def road_run_rx_def spaces_rx_def suffix_space_rx_def cls_defs re_defs py_defs

text \<open>
  The text "Shanghai city", a blank, "city district" (U+4E0A U+6D77 U+5E02, blank,
  U+5E02 U+8F96 U+533A): the first pass removes the blank after the suffix U+5E02, which
  brings two U+5E02 together; the second pass collapses them. Cleaning is not idempotent.
\<close>

lemma shanghai_1:
  "cleaned_address [0x4E0A, 0x6D77, 0x5E02, 0x20, 0x5E02, 0x8F96, 0x533A]
   = [0x4E0A, 0x6D77, 0x5E02, 0x5E02, 0x8F96, 0x533A]"
  apply (rule cleaned_address_steps)
  apply (simp add: step_defs)
  apply (simp add: step_defs)
  apply (simp add: step_defs)
  apply (simp add: step_defs)
  apply (simp add: step_defs)
  apply (simp add: step_defs)
  apply (simp add: step_defs)
  apply (simp add: step_defs)
  apply (simp add: step_defs)
  apply (simp add: step_defs)
  done

lemma shanghai_2:
  "cleaned_address [0x4E0A, 0x6D77, 0x5E02, 0x5E02, 0x8F96, 0x533A]
   = [0x4E0A, 0x6D77, 0x5E02, 0x8F96, 0x533A]"
  apply (rule cleaned_address_steps)
  apply (simp add: step_defs)
  apply (simp add: step_defs)
  apply (simp add: step_defs)
  apply (simp add: step_defs)
  apply (simp add: step_defs)
  apply (simp add: step_defs)
  apply (simp add: step_defs)
  apply (simp add: step_defs)
  apply (simp add: step_defs)
  apply (simp add: step_defs)
  done

theorem clean_address_string_not_idempotent:
  "fst (clean_address_string quiet
          (fst (clean_address_string quiet [0x4E0A, 0x6D77, 0x5E02, 0x20, 0x5E02, 0x8F96, 0x533A] init)) init)
   \<noteq> fst (clean_address_string quiet [0x4E0A, 0x6D77, 0x5E02, 0x20, 0x5E02, 0x8F96, 0x533A] init)"
proof -
  have 1: "py_join [0x20] (cleaned_parts [0x4E0A, 0x6D77, 0x5E02, 0x20, 0x5E02, 0x8F96, 0x533A])
           = [0x4E0A, 0x6D77, 0x5E02, 0x5E02, 0x8F96, 0x533A]"
    by (simp add: cleaned_parts_def shanghai_1 py_defs cls_defs)
  have 2: "py_join [0x20] (cleaned_parts [0x4E0A, 0x6D77, 0x5E02, 0x5E02, 0x8F96, 0x533A])
           = [0x4E0A, 0x6D77, 0x5E02, 0x8F96, 0x533A]"
    by (simp add: cleaned_parts_def shanghai_2 py_defs cls_defs)
  show ?thesis
    by (simp add: fst_clean 1 2)
qed

text \<open>
  C2, amended. Cleaning a cleaned text gives the same text whenever the cleaned text holds
  no match of the patterns of the rewriting steps: a municipality name written twice, a
  run of one administrative suffix, a road name written twice, a suffix followed by
  blanks and a Han character. The lookups made on the way play no part in the text.
\<close>

theorem clean_address_string_settled:
  "no_match rewrite_patterns (fst (clean_address_string ev a s)) \<Longrightarrow>
   fst (clean_address_string ev' (fst (clean_address_string ev a s)) s')
   = fst (clean_address_string ev a s)"
  by (simp add: fst_clean clean_settled)

lemma beijing_1:
  "cleaned_address [0x5317, 0x4EAC, 0x5317, 0x4EAC, 0x5E02, 0x20, 0x31, 0x53F7, 0x20, 0x31, 0x53F7]
   = [0x5317, 0x4EAC, 0x5E02, 0x20, 0x31, 0x53F7, 0x20, 0x31, 0x53F7]"
  apply (rule cleaned_address_steps)
  apply (simp add: step_defs)
  apply (simp add: step_defs)
  apply (simp add: step_defs)
  apply (simp add: step_defs)
  apply (simp add: step_defs)
  apply (simp add: step_defs)
  apply (simp add: step_defs)
  apply (simp add: step_defs)
  apply (simp add: step_defs)
  apply (simp add: step_defs)
  done

lemma beijing_settled:
  "no_match rewrite_patterns [0x5317, 0x4EAC, 0x5E02, 0x20, 0x31, 0x53F7]"
  by (simp add: rewrite_patterns_def municipalities_def step_defs)

theorem clean_address_string_settled_witness:
  "no_match rewrite_patterns
     (fst (clean_address_string quiet
            [0x5317, 0x4EAC, 0x5317, 0x4EAC, 0x5E02, 0x20, 0x31, 0x53F7, 0x20, 0x31, 0x53F7] init))
   \<and> fst (clean_address_string quiet [0x5317, 0x4EAC, 0x5317, 0x4EAC, 0x5E02, 0x20, 0x31, 0x53F7, 0x20, 0x31, 0x53F7] init)
       = [0x5317, 0x4EAC, 0x5E02, 0x20, 0x31, 0x53F7]
   \<and> fst (clean_address_string quiet
            (fst (clean_address_string quiet
                   [0x5317, 0x4EAC, 0x5317, 0x4EAC, 0x5E02, 0x20, 0x31, 0x53F7, 0x20, 0x31, 0x53F7] init)) init)
       = [0x5317, 0x4EAC, 0x5E02, 0x20, 0x31, 0x53F7]"
proof -
  have 1: "fst (clean_address_string quiet
                 [0x5317, 0x4EAC, 0x5317, 0x4EAC, 0x5E02, 0x20, 0x31, 0x53F7, 0x20, 0x31, 0x53F7] init)
           = [0x5317, 0x4EAC, 0x5E02, 0x20, 0x31, 0x53F7]"
    by (simp add: fst_clean cleaned_parts_def beijing_1 py_defs cls_defs)
  have 2: "no_match rewrite_patterns
             (fst (clean_address_string quiet
                    [0x5317, 0x4EAC, 0x5317, 0x4EAC, 0x5E02, 0x20, 0x31, 0x53F7, 0x20, 0x31, 0x53F7] init))"
    by (simp only: 1 beijing_settled)
  from clean_address_string_settled [OF 2, of quiet init] 1 2 show ?thesis
    by simp
qed

section \<open>Choosing among points of interest\<close>

lemma each_ok: "each f xs = Inr ys \<Longrightarrow> x \<in> set xs \<Longrightarrow> \<exists>y. f x = Inr y"
  by (induction xs arbitrary: ys) (auto simp: andthen_def split: sum.splits)

lemma str_in_text: "str_in v s = Inr b \<Longrightarrow> \<exists>t. v = PStr t"
  by (cases v) simp_all

lemma name_score_ok: "name_score poi address = Inr a \<Longrightarrow> has_text poi (asc ''name'')"
  by (cases poi) (auto simp: name_score_def has_text_def andthen_def split: sum.splits option.splits dest!: str_in_text)

lemma adname_score_ok: "adname_score poi address = Inr a \<Longrightarrow> has_text poi (asc ''adname'')"
  by (cases poi) (auto simp: adname_score_def has_text_def andthen_def split: sum.splits option.splits dest!: str_in_text)

lemma score_poi_ok:
  "score_poi address poi = Inr x \<Longrightarrow> has_text poi (asc ''name'') \<and> has_text poi (asc ''adname'')"
  unfolding score_poi_def
  by (cases "name_score poi address"; cases "address_score poi address"; cases "adname_score poi address")
     (auto simp: andthen_def dest: name_score_ok adname_score_ok)

text \<open>
  C10. \<open>_find_best_poi_match\<close> returns only when every candidate is a dict that holds a
  text under \<open>name\<close> and a text under \<open>adname\<close>: the two membership tests on these fields
  are made for every candidate without a guard. A list with one candidate that has an
  \<open>adname\<close> (Haidian district) and no \<open>name\<close> makes the test \<open>None in address\<close> raise
  \<open>TypeError\<close>.
\<close>

theorem find_best_poi_match_partial:
  "(find_best_poi_match pois address = Inr r \<longrightarrow>
      list_all (\<lambda>poi. has_text poi (asc ''name'') \<and> has_text poi (asc ''adname'')) pois)
   \<and> find_best_poi_match [PDict [(asc ''adname'', PStr [0x6D77, 0x6DC0, 0x533A])]]
        [0x6D77, 0x6DC0, 0x533A, 0x6E05, 0x534E, 0x5927, 0x5B66] = Inl TypeError"
proof
  show "find_best_poi_match pois address = Inr r \<longrightarrow>
      list_all (\<lambda>poi. has_text poi (asc ''name'') \<and> has_text poi (asc ''adname'')) pois"
  proof
    assume a: "find_best_poi_match pois address = Inr r"
    show "list_all (\<lambda>poi. has_text poi (asc ''name'') \<and> has_text poi (asc ''adname'')) pois"
    proof (cases "each (score_poi address) pois")
      case (Inl e)
      with a show ?thesis
        by (auto simp: find_best_poi_match_def andthen_def split: if_splits)
    next
      case (Inr ys)
      then show ?thesis
        by (auto simp: list_all_iff dest!: each_ok dest: score_poi_ok)
    qed
  qed
next
  show "find_best_poi_match [PDict [(asc ''adname'', PStr [0x6D77, 0x6DC0, 0x533A])]]
        [0x6D77, 0x6DC0, 0x533A, 0x6E05, 0x534E, 0x5927, 0x5B66] = Inl TypeError"
    by (simp add: find_best_poi_match_def score_poi_def name_score_def andthen_def asc_def)
qed

theorem find_best_poi_match_partial_witness:
  "find_best_poi_match
     [PDict [(asc ''name'', PStr [0x6E05, 0x534E, 0x5927, 0x5B66]), (asc ''adname'', PStr [0x6D77, 0x6DC0, 0x533A])]]
     [0x6D77, 0x6DC0, 0x533A, 0x6E05, 0x534E, 0x5927, 0x5B66]
   = Inr (PDict [(asc ''name'', PStr [0x6E05, 0x534E, 0x5927, 0x5B66]), (asc ''adname'', PStr [0x6D77, 0x6DC0, 0x533A])])
   \<and> list_all (\<lambda>poi. has_text poi (asc ''name'') \<and> has_text poi (asc ''adname''))
       [PDict [(asc ''name'', PStr [0x6E05, 0x534E, 0x5927, 0x5B66]), (asc ''adname'', PStr [0x6D77, 0x6DC0, 0x533A])]]"
proof -
  have e: "find_best_poi_match
     [PDict [(asc ''name'', PStr [0x6E05, 0x534E, 0x5927, 0x5B66]), (asc ''adname'', PStr [0x6D77, 0x6DC0, 0x533A])]]
     [0x6D77, 0x6DC0, 0x533A, 0x6E05, 0x534E, 0x5927, 0x5B66]
   = Inr (PDict [(asc ''name'', PStr [0x6E05, 0x534E, 0x5927, 0x5B66]), (asc ''adname'', PStr [0x6D77, 0x6DC0, 0x533A])])"
    by (simp add: find_best_poi_match_def score_poi_def name_score_def address_score_def adname_score_def
          business_score_def type_score_def alias_score_def children_score_def andthen_def asc_def)
  from e find_best_poi_match_partial show ?thesis by blast
qed

section \<open>County names\<close>

lemma quota_of_pos: "0 < quota_of path"
  by (simp add: quota_of_def)

lemma make_request_answering:
  assumes "check_response body = Inr ()"
  shows "fst (make_request (answering body) path params init) = Inr body"
proof (rule make_request_within [where d = "asc ''2025-01-02''"])
  show "obs_date (observe (answering body) (clock init)) = asc ''2025-01-02''"
    by (simp add: world_defs)
  show "counted (asc ''2025-01-02'') path init < quota_of path"
    by (simp add: counted_def init_def quota_of_pos)
  show "obs_response (observe (answering body) (clock init)) (path, params) = Decoded body"
    by (simp add: world_defs)
  show "check_response body = Inr ()"
    by (rule assms)
qed

lemma linxian_lookup:
  "\<exists>s1. get_district_by_name (answering linxian_body) [0x4E34, 0x53BF] init
     = (Some \<lparr>di_province = PStr [0x5C71, 0x897F, 0x7701], di_city = PStr [0x5415, 0x6881, 0x5E02],
              di_district = PStr [0x4E34, 0x53BF], di_adcode = PStr (asc ''141124'')\<rparr>, s1)"
proof -
  let ?rq = "make_request (answering linxian_body) (asc ''/v3/config/district'')
               [(asc ''keywords'', PStr [0x4E34, 0x53BF]), (asc ''subdistrict'', PStr (asc ''0'')),
                (asc ''key'', PStr (key init))] init"
  have "check_response linxian_body = Inr ()"
    by (simp add: check_response_def linxian_body_def andthen_def asc_def)
  then have "fst ?rq = Inr linxian_body"
    by (rule make_request_answering)
  then obtain s0 where rq: "?rq = (Inr linxian_body, s0)"
    by (cases ?rq) simp
  have dr: "district_of_result linxian_body
            = Inr (Some \<lparr>di_province = PStr [0x5C71, 0x897F, 0x7701], di_city = PStr [0x5415, 0x6881, 0x5E02],
                          di_district = PStr [0x4E34, 0x53BF], di_adcode = PStr (asc ''141124'')\<rparr>)"
    by (simp add: district_of_result_def linxian_body_def andthen_def asc_def)
  have "district_cache init [0x4E34, 0x53BF] = None"
    by (simp add: init_def)
  then show ?thesis
    using rq dr by (simp add: get_district_by_name_def)
qed

lemma linxian_cleaned: "cleaned_address [0x4E34, 0x53BF] = [0x4E34, 0x53BF]"
  apply (rule cleaned_address_steps)
  apply (simp add: step_defs)
  apply (simp add: step_defs)
  apply (simp add: step_defs)
  apply (simp add: step_defs)
  apply (simp add: step_defs)
  apply (simp add: step_defs)
  apply (simp add: step_defs)
  apply (simp add: step_defs)
  apply (simp add: step_defs)
  apply (simp add: step_defs)
  done

text \<open>
  C8. The text is Linxian (U+4E34 U+53BF), and the district lookup answers with Shanxi
  province and Lvliang city. The county loop finds the county, sees no province or city
  before it, looks it up and rebinds the local \<open>address\<close> to province, city and the old
  text. The value returned is joined from \<open>cleaned_parts\<close>, which was computed before the
  loop: it is the text without the prefix.
\<close>

theorem clean_address_string_linxian:
  "fst (county_loop (answering linxian_body) county_patterns (cleaned_address [0x4E34, 0x53BF], init))
     = [0x5C71, 0x897F, 0x7701, 0x5415, 0x6881, 0x5E02, 0x4E34, 0x53BF]
   \<and> fst (clean_address_string (answering linxian_body) [0x4E34, 0x53BF] init) = [0x4E34, 0x53BF]"
proof -
  obtain s1 where lk: "get_district_by_name (answering linxian_body) [0x4E34, 0x53BF] init
     = (Some \<lparr>di_province = PStr [0x5C71, 0x897F, 0x7701], di_city = PStr [0x5415, 0x6881, 0x5E02],
              di_district = PStr [0x4E34, 0x53BF], di_adcode = PStr (asc ''141124'')\<rparr>, s1)"
    using linxian_lookup by blast
  have 1: "fst (county_loop (answering linxian_body) county_patterns ([0x4E34, 0x53BF], init))
     = [0x5C71, 0x897F, 0x7701, 0x5415, 0x6881, 0x5E02, 0x4E34, 0x53BF]"
    by (simp add: county_patterns_def re_defs cls_defs lk py_str_def)
  have 2: "py_join [0x20] (cleaned_parts [0x4E34, 0x53BF]) = [0x4E34, 0x53BF]"
    by (simp add: cleaned_parts_def linxian_cleaned py_defs cls_defs)
  show ?thesis
    by (simp add: fst_clean 1 2 linxian_cleaned)
qed

section \<open>Room numbers\<close>

lemmas building_defs = unit_rx_def room_patterns_def room_end_def room_suffix_rx_def
  extract_unit_def extract_room_def decompose_def building_result_def special_keywords_def

lemma field_empty:
  "field empty_components (asc ''province'') = PStr []"
  "field empty_components (asc ''city'') = PStr []"
  "field empty_components (asc ''name'') = PStr []"
  "field empty_components (asc ''phone'') = PStr []"
  by (simp_all add: field_def empty_components_def asc_def)

lemma remove_nothing:
  "remove_fields empty_components [asc ''province'', asc ''city'', asc ''name'', asc ''phone''] text = Inr text"
  by (simp add: field_empty)

lemma block_cleaned:
  "cleaned_address [0x35, 0x680B, 0x35, 0x30, 0x31, 0x623F] = [0x35, 0x680B, 0x35, 0x30, 0x31, 0x623F]"
  apply (rule cleaned_address_steps)
  apply (simp add: step_defs)
  apply (simp add: step_defs)
  apply (simp add: step_defs)
  apply (simp add: step_defs)
  apply (simp add: step_defs)
  apply (simp add: step_defs)
  apply (simp add: step_defs)
  apply (simp add: step_defs)
  apply (simp add: step_defs)
  apply (simp add: step_defs)
  done

lemma block_special: "first_special special_keywords [0x35, 0x680B, 0x35, 0x30, 0x31, 0x623F] = None"
  by (simp add: special_keywords_def re_defs cls_defs)

lemma block_decompose:
  "decompose [0x35, 0x680B, 0x35, 0x30, 0x31, 0x623F] = building_result [0x35, 0x680B, 0x35, 0x30, 0x31, 0x623F] [] []"
  by (simp add: building_defs spaces_rx_def re_defs cls_defs py_defs)

text \<open>
  The text \<open>5\<close> U+680B \<open>501\<close> U+623F (block 5, room 501 written with the character U+623F)
  and no known component: \<open>_extract_building_info\<close> finds no room, because its patterns
  look ahead for U+5BA4 or the end only; the whole text becomes the building.
\<close>

theorem extract_building_info_fang:
  "fst (extract_building_info quiet [0x35, 0x680B, 0x35, 0x30, 0x31, 0x623F] empty_components init)
   = Inr (building_result [0x35, 0x680B, 0x35, 0x30, 0x31, 0x623F] [] [])
   \<and> building_result [0x35, 0x680B, 0x35, 0x30, 0x31, 0x623F] [] [] (asc ''room'') = Some (PStr [])"
proof -
  have "fst (clean_address_string quiet [0x35, 0x680B, 0x35, 0x30, 0x31, 0x623F] init)
        = [0x35, 0x680B, 0x35, 0x30, 0x31, 0x623F]"
    by (simp add: fst_clean cleaned_parts_def block_cleaned py_defs cls_defs)
  then obtain s' where c: "clean_address_string quiet [0x35, 0x680B, 0x35, 0x30, 0x31, 0x623F] init
        = ([0x35, 0x680B, 0x35, 0x30, 0x31, 0x623F], s')"
    by (cases "clean_address_string quiet [0x35, 0x680B, 0x35, 0x30, 0x31, 0x623F] init") simp
  have 1: "fst (extract_building_info quiet [0x35, 0x680B, 0x35, 0x30, 0x31, 0x623F] empty_components init)
   = Inr (building_result [0x35, 0x680B, 0x35, 0x30, 0x31, 0x623F] [] [])"
    by (simp add: extract_building_info_def field_empty c block_special block_decompose)
  have 2: "building_result [0x35, 0x680B, 0x35, 0x30, 0x31, 0x623F] [] [] (asc ''room'') = Some (PStr [])"
    by (simp add: building_result_def asc_def)
  from 1 2 show ?thesis by simp
qed

text \<open>
  C7, amended. When no special place is found, \<open>_extract_building_info\<close> takes the unit
  out of the cleaned text and then looks for the room with three patterns in this order:
  two to four digits not preceded by a digit, a Latin letter and two to four digits, two
  to four digits preceded by a hyphen, each followed by U+5BA4 or by the end. The match of
  the first pattern that has one is the room; every occurrence of its text is removed,
  and then a final U+5BA4 with the white space after it. With no match the room is empty
  and the text stays.
\<close>

theorem extract_building_info_rooms:
  "(first_special special_keywords address = None \<longrightarrow>
    remove_fields components [asc ''province'', asc ''city'', asc ''name'', asc ''phone''] address
      = Inr remaining \<longrightarrow>
    fst (extract_building_info ev address components s)
      = Inr (let (unit, r1) = extract_unit (fst (clean_address_string ev remaining s));
                 (room, r2) = extract_room room_patterns r1
             in building_result (py_strip (re_sub spaces_rx [RLit [0x20]] r2)) unit room))
   \<and> extract_room room_patterns text =
       (case re_search (Seq (Behind False digit_cls)
                         (Seq (Rep 2 4 (Cls digit_cls)) (Ahead True (Alt (Lit [0x5BA4]) Eos)))) text of
          Some m \<Rightarrow> (m_group m, re_sub room_suffix_rx [] (py_replace text (m_group m) []))
        | None \<Rightarrow>
       (case re_search (Seq (Cls [(0x41, 0x5A), (0x61, 0x7A)])
                         (Seq (Rep 2 4 (Cls digit_cls)) (Ahead True (Alt (Lit [0x5BA4]) Eos)))) text of
          Some m \<Rightarrow> (m_group m, re_sub room_suffix_rx [] (py_replace text (m_group m) []))
        | None \<Rightarrow>
       (case re_search (Seq (Behind True (chars [0x2D]))
                         (Seq (Rep 2 4 (Cls digit_cls)) (Ahead True (Alt (Lit [0x5BA4]) Eos)))) text of
          Some m \<Rightarrow> (m_group m, re_sub room_suffix_rx [] (py_replace text (m_group m) []))
        | None \<Rightarrow> ([], text))))"
proof (intro conjI impI)
  assume a: "first_special special_keywords address = None"
    and b: "remove_fields components [asc ''province'', asc ''city'', asc ''name'', asc ''phone''] address
              = Inr remaining"
  obtain t s' where c: "clean_address_string ev remaining s = (t, s')"
    by (cases "clean_address_string ev remaining s")
  show "fst (extract_building_info ev address components s)
      = Inr (let (unit, r1) = extract_unit (fst (clean_address_string ev remaining s));
                 (room, r2) = extract_room room_patterns r1
             in building_result (py_strip (re_sub spaces_rx [RLit [0x20]] r2)) unit room)"
    using a b c by (simp add: extract_building_info_def decompose_def)
next
  show "extract_room room_patterns text =
       (case re_search (Seq (Behind False digit_cls)
                         (Seq (Rep 2 4 (Cls digit_cls)) (Ahead True (Alt (Lit [0x5BA4]) Eos)))) text of
          Some m \<Rightarrow> (m_group m, re_sub room_suffix_rx [] (py_replace text (m_group m) []))
        | None \<Rightarrow>
       (case re_search (Seq (Cls [(0x41, 0x5A), (0x61, 0x7A)])
                         (Seq (Rep 2 4 (Cls digit_cls)) (Ahead True (Alt (Lit [0x5BA4]) Eos)))) text of
          Some m \<Rightarrow> (m_group m, re_sub room_suffix_rx [] (py_replace text (m_group m) []))
        | None \<Rightarrow>
       (case re_search (Seq (Behind True (chars [0x2D]))
                         (Seq (Rep 2 4 (Cls digit_cls)) (Ahead True (Alt (Lit [0x5BA4]) Eos)))) text of
          Some m \<Rightarrow> (m_group m, re_sub room_suffix_rx [] (py_replace text (m_group m) []))
        | None \<Rightarrow> ([], text))))"
    unfolding extract_room_def room_patterns_def room_end_def first_match.simps
    by (simp split: option.splits)
qed

lemma flat_cleaned:
  "cleaned_address [0x33, 0x53F7, 0x697C, 0x32, 0x5355, 0x5143, 0x35, 0x30, 0x31, 0x5BA4]
   = [0x33, 0x53F7, 0x697C, 0x32, 0x5355, 0x5143, 0x35, 0x30, 0x31, 0x5BA4]"
  apply (rule cleaned_address_steps)
  apply (simp add: step_defs)
  apply (simp add: step_defs)
  apply (simp add: step_defs)
  apply (simp add: step_defs)
  apply (simp add: step_defs)
  apply (simp add: step_defs)
  apply (simp add: step_defs)
  apply (simp add: step_defs)
  apply (simp add: step_defs)
  apply (simp add: step_defs)
  done

lemma flat_special:
  "first_special special_keywords [0x33, 0x53F7, 0x697C, 0x32, 0x5355, 0x5143, 0x35, 0x30, 0x31, 0x5BA4] = None"
  by (simp add: special_keywords_def re_defs cls_defs)

lemma flat_unit:
  "extract_unit [0x33, 0x53F7, 0x697C, 0x32, 0x5355, 0x5143, 0x35, 0x30, 0x31, 0x5BA4]
   = ([0x32, 0x5355, 0x5143], [0x33, 0x53F7, 0x697C, 0x35, 0x30, 0x31, 0x5BA4])"
  by (simp add: extract_unit_def unit_rx_def re_defs cls_defs py_defs)

lemma flat_room_match:
  "first_match room_patterns [0x33, 0x53F7, 0x697C, 0x35, 0x30, 0x31, 0x5BA4] = Some m
   \<Longrightarrow> m_group m = [0x35, 0x30, 0x31]"
  by (simp add: room_patterns_def room_end_def re_defs cls_defs) auto

lemma flat_room_some:
  "first_match room_patterns [0x33, 0x53F7, 0x697C, 0x35, 0x30, 0x31, 0x5BA4] \<noteq> None"
  by (simp add: room_patterns_def room_end_def re_defs cls_defs)

lemma flat_rest:
  "re_sub room_suffix_rx [] (py_replace [0x33, 0x53F7, 0x697C, 0x35, 0x30, 0x31, 0x5BA4] [0x35, 0x30, 0x31] [])
   = [0x33, 0x53F7, 0x697C]"
  by (simp add: room_suffix_rx_def re_defs cls_defs py_defs)

lemma flat_room:
  "extract_room room_patterns [0x33, 0x53F7, 0x697C, 0x35, 0x30, 0x31, 0x5BA4]
   = ([0x35, 0x30, 0x31], [0x33, 0x53F7, 0x697C])"
  using flat_room_match flat_room_some
  by (cases "first_match room_patterns [0x33, 0x53F7, 0x697C, 0x35, 0x30, 0x31, 0x5BA4]")
     (simp_all add: extract_room_def flat_rest)

lemma flat_building:
  "py_strip (re_sub spaces_rx [RLit [0x20]] [0x33, 0x53F7, 0x697C]) = [0x33, 0x53F7, 0x697C]"
  by (simp add: spaces_rx_def re_defs cls_defs py_defs)

theorem extract_building_info_rooms_witness:
  "first_special special_keywords [0x33, 0x53F7, 0x697C, 0x32, 0x5355, 0x5143, 0x35, 0x30, 0x31, 0x5BA4] = None
   \<and> remove_fields empty_components [asc ''province'', asc ''city'', asc ''name'', asc ''phone'']
         [0x33, 0x53F7, 0x697C, 0x32, 0x5355, 0x5143, 0x35, 0x30, 0x31, 0x5BA4]
       = Inr [0x33, 0x53F7, 0x697C, 0x32, 0x5355, 0x5143, 0x35, 0x30, 0x31, 0x5BA4]
   \<and> fst (extract_building_info quiet [0x33, 0x53F7, 0x697C, 0x32, 0x5355, 0x5143, 0x35, 0x30, 0x31, 0x5BA4]
            empty_components init)
       = Inr (building_result [0x33, 0x53F7, 0x697C] [0x32, 0x5355, 0x5143] [0x35, 0x30, 0x31])"
proof -
  let ?x = "[0x33, 0x53F7, 0x697C, 0x32, 0x5355, 0x5143, 0x35, 0x30, 0x31, 0x5BA4]"
  have c: "fst (clean_address_string quiet ?x init) = ?x"
    by (simp add: fst_clean cleaned_parts_def flat_cleaned py_defs cls_defs)
  have "fst (extract_building_info quiet ?x empty_components init)
      = Inr (let (unit, r1) = extract_unit (fst (clean_address_string quiet ?x init));
                 (room, r2) = extract_room room_patterns r1
             in building_result (py_strip (re_sub spaces_rx [RLit [0x20]] r2)) unit room)"
    using extract_building_info_rooms [of ?x empty_components ?x quiet init] flat_special remove_nothing
    by blast
  then have "fst (extract_building_info quiet ?x empty_components init)
       = Inr (building_result [0x33, 0x53F7, 0x697C] [0x32, 0x5355, 0x5143] [0x35, 0x30, 0x31])"
    by (simp only: c flat_unit flat_room flat_building Let_def prod.case)
  then show ?thesis
    using flat_special remove_nothing by simp
qed

section \<open>The fields of the record\<close>

lemma has_fields_empty: "has_fields empty_components"
  by (simp add: has_fields_def empty_components_def asc_def)

lemma has_fields_components_of: "has_fields (components_of p c d st)"
  by (simp add: has_fields_def components_of_def asc_def)

lemma has_fields_upd: "has_fields r \<Longrightarrow> has_fields (r(k \<mapsto> v))"
  by (simp add: has_fields_def)

lemma has_fields_add: "has_fields r \<Longrightarrow> has_fields (r ++ b)"
  by (auto simp: has_fields_def map_add_def split: option.splits)

lemma has_fields_with_contact: "has_fields r \<Longrightarrow> has_fields (with_contact a r)"
  by (simp add: with_contact_def has_fields_upd split: prod.splits)

lemma has_fields_district_branch: "has_fields (fst (district_branch ev a info s))"
  by (simp add: district_branch_def Let_def has_fields_upd has_fields_components_of split: prod.splits)

lemma has_fields_with_street: "has_fields r \<Longrightarrow> with_street g r = Inr r' \<Longrightarrow> has_fields r'"
  by (auto simp: with_street_def andthen_def has_fields_upd split: sum.splits if_splits)

lemma has_fields_with_weather:
  "has_fields r \<Longrightarrow> with_weather ev g r s = (Inr r', s') \<Longrightarrow> has_fields r'"
  by (auto simp: with_weather_def has_fields_upd split: sum.splits if_splits prod.splits)

lemma has_fields_geocode_components: "geocode_components g = Inr r \<Longrightarrow> has_fields r"
  by (auto simp: geocode_components_def andthen_def has_fields_components_of split: sum.splits)

lemma has_fields_geocode_branch:
  assumes "geocode_branch ev a g s = (Inr r, s')"
  shows "has_fields r"
proof -
  from assms obtain c where c: "andthen (geocode_components g) (with_street g) = Inr c"
    by (auto simp: geocode_branch_def split: sum.splits)
  then obtain c0 where "geocode_components g = Inr c0" and "with_street g c0 = Inr c"
    by (auto simp: andthen_def split: sum.splits)
  then have hc: "has_fields c"
    using has_fields_geocode_components has_fields_with_street by blast
  from assms c obtain b s1 where b: "extract_building_info ev a c s = (Inr b, s1)"
    and w: "with_weather ev g (with_contact a (c ++ b)) s1 = (Inr r, s')"
    by (auto simp: geocode_branch_def split: sum.splits prod.splits)
  show ?thesis
    using has_fields_with_weather [OF _ w] hc has_fields_add has_fields_with_contact by blast
qed

lemma has_fields_text: "has_fields (fst (parse_address_by_text ev a s))"
proof (cases "text_body ev a s")
  case (Pair r s')
  show ?thesis
  proof (cases r)
    case (Inl e)
    with Pair show ?thesis by (simp add: parse_address_by_text_def has_fields_empty)
  next
    case (Inr opt)
    show ?thesis
    proof (cases opt)
      case None
      with Pair Inr show ?thesis by (simp add: parse_address_by_text_def has_fields_empty)
    next
      case (Some c)
      have "has_fields c"
        using Pair Inr Some has_fields_district_branch [of ev] has_fields_geocode_branch [of ev]
        by (auto simp: text_body_def Let_def split: prod.splits option.splits sum.splits if_splits)
           (metis fst_conv)+
      with Pair Inr Some show ?thesis by (simp add: parse_address_by_text_def)
    qed
  qed
qed

section \<open>The coordinate branch\<close>

lemma weather_components_of: "components_of p c d st (asc ''weather'') = Some PNone"
  by (simp add: components_of_def asc_def)

lemma weather_with_contact: "with_contact a r (asc ''weather'') = r (asc ''weather'')"
  by (simp add: with_contact_def asc_def split: prod.splits)

lemma weather_building_result: "building_result b u r (asc ''weather'') = None"
  by (simp add: building_result_def asc_def)

lemma special_place_result:
  assumes "special_place a c k = Inr b"
  shows "\<exists>t. b = building_result t [] []"
proof (cases "remove_fields c [asc ''province'', asc ''city''] a")
  case (Inl e)
  with assms show ?thesis
    by (simp add: special_place_def andthen_def del: remove_fields.simps)
next
  case p: (Inr place)
  show ?thesis
  proof (cases "if \<not> k \<and> truthy (field c (asc ''district''))
                then str_replace place (field c (asc ''district'')) else Inr place")
    case (Inl e)
    with assms p show ?thesis
      by (simp add: special_place_def andthen_def del: remove_fields.simps)
  next
    case q: (Inr place')
    with assms p have "b = building_result (py_strip place') [] []"
      by (simp add: special_place_def andthen_def del: remove_fields.simps)
    then show ?thesis by blast
  qed
qed

lemma decompose_result: "\<exists>b u r. decompose t = building_result b u r"
proof -
  obtain u r1 where 1: "extract_unit t = (u, r1)"
    by (cases "extract_unit t")
  obtain r r2 where 2: "extract_room room_patterns r1 = (r, r2)"
    by (cases "extract_room room_patterns r1")
  have "decompose t = building_result (py_strip (re_sub spaces_rx [RLit [0x20]] r2)) u r"
    by (simp add: decompose_def 1 2)
  then show ?thesis by blast
qed

lemma weather_building_info:
  assumes "extract_building_info ev a c s = (Inr b, s')"
  shows "b (asc ''weather'') = None"
proof -
  from assms have "(\<exists>k. special_place a c k = Inr b) \<or> (\<exists>t. b = decompose t)"
    by (auto simp: extract_building_info_def split: sum.splits prod.splits option.splits)
  then show ?thesis
  proof
    assume "\<exists>k. special_place a c k = Inr b"
    then obtain t where "b = building_result t [] []"
      using special_place_result by blast
    then show ?thesis
      by (simp add: weather_building_result)
  next
    assume "\<exists>t. b = decompose t"
    then show ?thesis
      using decompose_result weather_building_result by metis
  qed
qed

lemma weather_regeo_components:
  "regeo_components rg = Inr (ac, c) \<Longrightarrow> c (asc ''weather'') = Some PNone"
  by (auto simp: regeo_components_def andthen_def weather_components_of split: sum.splits)

lemma weather_coordinate_branch:
  assumes "coordinate_branch ev a rg s = (Inr r, s')"
  shows "r (asc ''weather'') = Some PNone"
proof -
  from assms obtain ac c where rc: "regeo_components rg = Inr (ac, c)"
    by (auto simp: coordinate_branch_def split: sum.splits)
  then have wc: "c (asc ''weather'') = Some PNone"
    by (rule weather_regeo_components)
  have "r = c \<or> (\<exists>b s1. extract_building_info ev a (with_contact a c) s = (Inr b, s1)
                    \<and> r = with_contact a c ++ b)"
    using assms rc
    by (auto simp: coordinate_branch_def split: sum.splits prod.splits if_splits)
  then show ?thesis
  proof
    assume "r = c"
    with wc show ?thesis by simp
  next
    assume "\<exists>b s1. extract_building_info ev a (with_contact a c) s = (Inr b, s1)
                    \<and> r = with_contact a c ++ b"
    then obtain b s1 where b: "extract_building_info ev a (with_contact a c) s = (Inr b, s1)"
      and r: "r = with_contact a c ++ b" by blast
    show ?thesis
      using weather_building_info [OF b] wc by (simp add: r map_add_def weather_with_contact)
  qed
qed

lemma weather_empty: "empty_components (asc ''weather'') = Some PNone"
  by (simp add: empty_components_def asc_def)

text \<open>
  C9. When \<open>parse_address\<close> has a location and the reverse geocode for it resolves, the
  weather field of the record returned is \<open>None\<close>: the branch builds its dict with
  \<open>weather: None\<close>, the contact and building steps write other keys only, the weather
  fetched by the adcode stays in the local \<open>weather_info\<close>, and an exception in the branch
  leads to the empty record, whose weather is \<open>None\<close> as well.
\<close>

theorem parse_address_coordinate_weather:
  assumes "truthy (fst (coordinate_lookup ev address coordinates coordsys s))"
    and "regeo_resolved (snd (coordinate_lookup ev address coordinates coordsys s)) = Inr True"
  shows "fst (parse_address ev address coordinates coordsys s) (asc ''weather'') = Some PNone"
proof -
  obtain ca s1 where c: "clean_address_string ev address s = (ca, s1)"
    by (cases "clean_address_string ev address s")
  obtain loc s2 where l: "locate ev coordinates coordsys s1 = (loc, s2)"
    by (cases "locate ev coordinates coordsys s1")
  obtain rg s3 where g: "regeo_code ev loc s2 = (rg, s3)"
    by (cases "regeo_code ev loc s2")
  from assms c l g have t: "truthy loc" and r: "regeo_resolved rg = Inr True"
    by (simp_all add: coordinate_lookup_def)
  obtain res s4 where b: "coordinate_branch ev address rg s3 = (res, s4)"
    by (cases "coordinate_branch ev address rg s3")
  have body: "address_body ev address coordinates coordsys s = (res, s4)"
    using c l g t r b by (simp add: address_body_def)
  show ?thesis
  proof (cases res)
    case (Inl e)
    with body show ?thesis by (simp add: parse_address_def weather_empty)
  next
    case (Inr comps)
    with b have "comps (asc ''weather'') = Some PNone"
      using weather_coordinate_branch by blast
    with body Inr show ?thesis by (simp add: parse_address_def)
  qed
qed

lemma geo_code_answering: "fst (geo_code (answering body) a s) = body"
  by (simp add: geo_code_def direct_request_def world_defs)

lemma regeo_code_answering: "fst (regeo_code (answering body) loc s) = body"
  by (simp add: regeo_code_def direct_request_def world_defs)

lemma regeo_body_resolved: "regeo_resolved regeo_body = Inr True"
  by (simp add: regeo_resolved_def regeo_body_def andthen_def asc_def)

theorem parse_address_coordinate_weather_witness:
  "truthy (fst (coordinate_lookup (answering regeo_body) []
                  (Some (asc ''116.4,39.9'')) None init))
   \<and> regeo_resolved (snd (coordinate_lookup (answering regeo_body) []
                              (Some (asc ''116.4,39.9'')) None init)) = Inr True
   \<and> fst (parse_address (answering regeo_body) [] (Some (asc ''116.4,39.9'')) None init)
         (asc ''weather'') = Some PNone"
proof -
  obtain ca s1 where c: "clean_address_string (answering regeo_body) [] init = (ca, s1)"
    by (cases "clean_address_string (answering regeo_body) [] init")
  have l: "coordinate_lookup (answering regeo_body) [] (Some (asc ''116.4,39.9'')) None init
           = (PStr (asc ''116.4,39.9''), regeo_body)"
    by (simp add: coordinate_lookup_def c locate_def regeo_code_answering) (simp add: asc_def)
  have 1: "truthy (fst (coordinate_lookup (answering regeo_body) []
                  (Some (asc ''116.4,39.9'')) None init))"
    by (simp add: l) (simp add: asc_def)
  have 2: "regeo_resolved (snd (coordinate_lookup (answering regeo_body) []
                              (Some (asc ''116.4,39.9'')) None init)) = Inr True"
    by (simp add: l regeo_body_resolved)
  from parse_address_coordinate_weather [OF 1 2] 1 2 show ?thesis
    by simp
qed

lemma building_info_shape:
  assumes "extract_building_info ev a c s = (Inr b, s')"
  shows "\<exists>t u r. b = building_result t u r"
proof -
  from assms have "(\<exists>k. special_place a c k = Inr b) \<or> (\<exists>t. b = decompose t)"
    by (auto simp: extract_building_info_def split: sum.splits prod.splits option.splits)
  then show ?thesis
    using special_place_result decompose_result by metis
qed

lemma has_fields_coordinate_branch:
  assumes "coordinate_branch ev a rg s = (Inr r, s')"
  shows "has_fields r"
proof -
  from assms obtain ac c where rc: "regeo_components rg = Inr (ac, c)"
    by (auto simp: coordinate_branch_def split: sum.splits)
  then have hc: "has_fields c"
    by (auto simp: regeo_components_def andthen_def has_fields_components_of split: sum.splits)
  have "r = c \<or> (\<exists>b. r = with_contact a c ++ b)"
    using assms rc
    by (auto simp: coordinate_branch_def split: sum.splits prod.splits if_splits)
  then show ?thesis
    using hc has_fields_with_contact has_fields_add by blast
qed

lemma has_fields_parse_address: "has_fields (fst (parse_address ev a co cs s))"
proof (cases "address_body ev a co cs s")
  case (Pair res s')
  show ?thesis
  proof (cases res)
    case (Inl e)
    with Pair show ?thesis by (simp add: parse_address_def has_fields_empty)
  next
    case (Inr c)
    have "has_fields c"
      using Pair Inr has_fields_coordinate_branch [of ev a] has_fields_text [of ev a]
      by (auto simp: address_body_def Let_def split: prod.splits sum.splits if_splits bool.splits)
         (metis fst_conv)+
    with Pair Inr show ?thesis by (simp add: parse_address_def)
  qed
qed

lemma dt_empty: "derived_texts empty_components"
  by (simp add: derived_texts_def is_text_at_def empty_components_def asc_def)

lemma dt_components_of: "derived_texts (components_of p c d (PStr st))"
  by (simp add: derived_texts_def is_text_at_def components_of_def asc_def)

lemma dt_upd_text: "derived_texts r \<Longrightarrow> derived_texts (r(k \<mapsto> PStr t))"
  by (simp add: derived_texts_def is_text_at_def)

lemma dt_upd_weather: "derived_texts r \<Longrightarrow> derived_texts (r(asc ''weather'' \<mapsto> w))"
  by (simp add: derived_texts_def is_text_at_def asc_def)

lemma dt_add_building: "derived_texts r \<Longrightarrow> derived_texts (r ++ building_result b u rm)"
  by (simp add: derived_texts_def is_text_at_def building_result_def map_add_def asc_def)

lemma dt_with_contact: "derived_texts r \<Longrightarrow> derived_texts (with_contact a r)"
  by (simp add: with_contact_def dt_upd_text split: prod.splits)

lemma dt_district_branch: "derived_texts (fst (district_branch ev a info s))"
  by (simp add: district_branch_def Let_def dt_upd_text dt_upd_weather dt_components_of split: prod.splits)

lemma dt_with_street: "derived_texts r \<Longrightarrow> with_street g r = Inr r' \<Longrightarrow> derived_texts r'"
  by (auto simp: with_street_def andthen_def dt_upd_text split: sum.splits if_splits)

lemma dt_with_weather:
  "derived_texts r \<Longrightarrow> with_weather ev g r s = (Inr r', s') \<Longrightarrow> derived_texts r'"
  by (auto simp: with_weather_def dt_upd_weather split: sum.splits if_splits prod.splits)

lemma dt_geocode_components: "geocode_components g = Inr r \<Longrightarrow> derived_texts r"
  by (auto simp: geocode_components_def andthen_def dt_components_of split: sum.splits)

lemma dt_geocode_branch:
  assumes "geocode_branch ev a g s = (Inr r, s')"
  shows "derived_texts r"
proof -
  from assms obtain c where c: "andthen (geocode_components g) (with_street g) = Inr c"
    by (auto simp: geocode_branch_def split: sum.splits)
  then obtain c0 where "geocode_components g = Inr c0" and "with_street g c0 = Inr c"
    by (auto simp: andthen_def split: sum.splits)
  then have hc: "derived_texts c"
    using dt_geocode_components dt_with_street by blast
  from assms c obtain b s1 where b: "extract_building_info ev a c s = (Inr b, s1)"
    and w: "with_weather ev g (with_contact a (c ++ b)) s1 = (Inr r, s')"
    by (auto simp: geocode_branch_def split: sum.splits prod.splits)
  obtain t u rm where "b = building_result t u rm"
    using building_info_shape [OF b] by blast
  then have "derived_texts (with_contact a (c ++ b))"
    using hc dt_add_building dt_with_contact by simp
  then show ?thesis
    using dt_with_weather w by blast
qed

lemma dt_text: "derived_texts (fst (parse_address_by_text ev a s))"
proof (cases "text_body ev a s")
  case (Pair r s')
  show ?thesis
  proof (cases r)
    case (Inl e)
    with Pair show ?thesis by (simp add: parse_address_by_text_def dt_empty)
  next
    case (Inr opt)
    show ?thesis
    proof (cases opt)
      case None
      with Pair Inr show ?thesis by (simp add: parse_address_by_text_def dt_empty)
    next
      case (Some c)
      have "derived_texts c"
        using Pair Inr Some dt_district_branch [of ev] dt_geocode_branch [of ev]
        by (auto simp: text_body_def Let_def split: prod.splits option.splits sum.splits if_splits)
           (metis fst_conv)+
      with Pair Inr Some show ?thesis by (simp add: parse_address_by_text_def)
    qed
  qed
qed

lemma complete_address_text:
  "fst (complete_address ev a s)
   = fst (parse_address_by_text ev a (snd (clean_address_string ev a s)))"
  by (simp add: complete_address_def parse_address_def address_body_def locate_def split: prod.splits)

text \<open>
  Whatever the text, the environment and the state of the gateway, the record that
  \<open>complete_address\<close> returns holds the nine fields and the weather field, and so does the
  record of \<open>parse_address\<close> called with coordinates. Street, building, unit, room, name
  and phone are texts. The lookups catch their own exceptions; an exception that leaves
  the \<open>try\<close> block of \<open>parse_address\<close> or of \<open>_parse_address_by_text\<close> gives the empty
  record.
\<close>

lemma parse_address_fields:
  "has_fields (fst (complete_address ev address s))
   \<and> derived_texts (fst (complete_address ev address s))
   \<and> has_fields (fst (parse_address ev address coordinates coordsys s))
   \<and> (fst (address_body ev address coordinates coordsys s) = Inl e \<longrightarrow>
        fst (parse_address ev address coordinates coordsys s) = empty_components)
   \<and> (fst (text_body ev address s) = Inl e \<longrightarrow>
        fst (parse_address_by_text ev address s) = empty_components)"
proof (intro conjI impI)
  show "has_fields (fst (complete_address ev address s))"
    by (simp add: complete_address_def has_fields_parse_address)
  show "derived_texts (fst (complete_address ev address s))"
    by (simp add: complete_address_text dt_text)
  show "has_fields (fst (parse_address ev address coordinates coordsys s))"
    by (rule has_fields_parse_address)
  show "fst (parse_address ev address coordinates coordsys s) = empty_components"
    if "fst (address_body ev address coordinates coordsys s) = Inl e"
    using that by (cases "address_body ev address coordinates coordsys s") (simp add: parse_address_def)
  show "fst (parse_address_by_text ev address s) = empty_components"
    if "fst (text_body ev address s) = Inl e"
    using that by (cases "text_body ev address s") (simp add: parse_address_by_text_def)
qed

lemma beijing_cleaned:
  "cleaned_address [0x5317, 0x4EAC, 0x5E02] = [0x5317, 0x4EAC, 0x5E02]"
  apply (rule cleaned_address_steps)
  apply (simp add: step_defs)
  apply (simp add: step_defs)
  apply (simp add: step_defs)
  apply (simp add: step_defs)
  apply (simp add: step_defs)
  apply (simp add: step_defs)
  apply (simp add: step_defs)
  apply (simp add: step_defs)
  apply (simp add: step_defs)
  apply (simp add: step_defs)
  done

lemma beijing_clean:
  "clean_address_string ev [0x5317, 0x4EAC, 0x5E02] s = ([0x5317, 0x4EAC, 0x5E02], s)"
  by (simp add: clean_address_string_def beijing_cleaned cleaned_parts_def county_patterns_def
        re_defs cls_defs py_defs)

lemma make_request_bad_body:
  assumes "check_response body = Inl e"
  shows "\<exists>e'. fst (make_request (answering body) path params s) = Inl e'"
proof -
  obtain ok s1 where cq: "check_quota (observe (answering body) (clock s)) path (s\<lparr>clock := clock s + 1\<rparr>) = (ok, s1)"
    by fastforce
  show ?thesis
    using cq assms
    by (cases ok) (auto simp: make_request_def request_body_def Let_def andthen_def world_defs split: exn.splits)
qed

lemma get_district_failed:
  assumes "district_cache s name = None"
    and "fst (make_request ev (asc ''/v3/config/district'')
                [(asc ''keywords'', PStr name), (asc ''subdistrict'', PStr (asc ''0'')),
                 (asc ''key'', PStr (key s))] s) = Inl e"
  shows "fst (get_district_by_name ev name s) = None"
  using assms by (auto simp: get_district_by_name_def split: prod.splits sum.splits)

lemma array_body_check: "check_response array_body = Inl AttributeError"
  by (simp add: check_response_def array_body_def andthen_def)

lemma array_body_text:
  "fst (text_body (answering array_body) [0x5317, 0x4EAC, 0x5E02] init) = Inl AttributeError"
proof -
  let ?ev = "answering array_body" and ?a = "[0x5317, 0x4EAC, 0x5E02]"
  have "district_cache init ?a = None" by (simp add: init_def)
  then have "fst (get_district_by_name ?ev ?a init) = None"
    using make_request_bad_body [OF array_body_check] get_district_failed by blast
  then obtain s2 where d: "get_district_by_name ?ev ?a init = (None, s2)"
    by (cases "get_district_by_name ?ev ?a init") simp
  obtain s3 where g: "geo_code ?ev ?a s2 = (array_body, s3)"
    using geo_code_answering [of array_body ?a s2] by (cases "geo_code ?ev ?a s2") simp
  have f: "first_geocode array_body = Inl AttributeError"
    by (simp add: first_geocode_def array_body_def andthen_def)
  show ?thesis
    by (simp add: text_body_def beijing_clean d g f)
qed

lemma array_body_address:
  "fst (address_body (answering array_body) [0x5317, 0x4EAC, 0x5E02] (Some (asc ''116.4,39.9'')) None init)
   = Inl AttributeError"
proof -
  let ?ev = "answering array_body"
  have l: "locate ?ev (Some (asc ''116.4,39.9'')) None init = (PStr (asc ''116.4,39.9''), init)"
    by (simp add: locate_def) (simp add: asc_def)
  obtain s3 where g: "regeo_code ?ev (PStr (asc ''116.4,39.9'')) init = (array_body, s3)"
    using regeo_code_answering [of array_body "PStr (asc ''116.4,39.9'')" init]
    by (cases "regeo_code ?ev (PStr (asc ''116.4,39.9'')) init") simp
  have r: "regeo_resolved array_body = Inl AttributeError"
    by (simp add: regeo_resolved_def array_body_def andthen_def)
  have t: "asc ''116.4,39.9'' \<noteq> []"
    by (simp add: asc_def)
  show ?thesis
    by (simp add: address_body_def beijing_clean l g r t)
qed

lemma parse_address_fields_array_body:
  "fst (address_body (answering array_body) [0x5317, 0x4EAC, 0x5E02] (Some (asc ''116.4,39.9'')) None init)
     = Inl AttributeError
   \<and> fst (text_body (answering array_body) [0x5317, 0x4EAC, 0x5E02] init) = Inl AttributeError
   \<and> has_fields (fst (complete_address (answering array_body) [0x5317, 0x4EAC, 0x5E02] init))
   \<and> fst (parse_address (answering array_body) [0x5317, 0x4EAC, 0x5E02] (Some (asc ''116.4,39.9'')) None init)
     = empty_components
   \<and> fst (parse_address_by_text (answering array_body) [0x5317, 0x4EAC, 0x5E02] init) = empty_components"
  using parse_address_fields [of "answering array_body" "[0x5317, 0x4EAC, 0x5E02]" init
          "Some (asc ''116.4,39.9'')" None AttributeError]
        array_body_text array_body_address
  by blast

section \<open>A district that is not a text\<close>

lemma make_request_answering_body:
  assumes "fst (make_request (answering body) path params s) = Inr r"
  shows "r = body"
proof -
  obtain ok s1 where cq: "check_quota (observe (answering body) (clock s)) path (s\<lparr>clock := clock s + 1\<rparr>) = (ok, s1)"
    by fastforce
  show ?thesis
    using cq assms
    by (cases ok) (auto simp: make_request_def request_body_def Let_def andthen_def world_defs
          split: exn.splits sum.splits if_splits)
qed

lemma get_district_nothing:
  assumes "district_cache s name = None" and "district_of_result body = Inr None"
  shows "fst (get_district_by_name (answering body) name s) = None"
proof -
  let ?rq = "make_request (answering body) (asc ''/v3/config/district'')
               [(asc ''keywords'', PStr name), (asc ''subdistrict'', PStr (asc ''0'')),
                (asc ''key'', PStr (key s))] s"
  obtain res s1 where rq: "?rq = (res, s1)" by (cases ?rq)
  show ?thesis
  proof (cases res)
    case (Inl e)
    with rq assms(1) show ?thesis by (simp add: get_district_by_name_def)
  next
    case (Inr r)
    with rq have "fst ?rq = Inr r" by simp
    then have "r = body" by (rule make_request_answering_body)
    with Inr rq assms show ?thesis by (simp add: get_district_by_name_def)
  qed
qed

lemma city_body_district: "district_of_result city_body = Inr None"
  by (simp add: district_of_result_def city_body_def andthen_def) (simp add: asc_def)

lemma city_body_first: "first_geocode city_body = Inr (Some city_geocode)"
  by (simp add: first_geocode_def city_body_def andthen_def) (simp add: asc_def)

lemma city_components:
  "geocode_components city_geocode
   = Inr (components_of (PStr [0x5317, 0x4EAC, 0x5E02]) (PStr [0x5317, 0x4EAC, 0x5E02]) (PList []) (PStr []))"
  by (simp add: geocode_components_def city_geocode_def andthen_def py_or_def asc_def)

lemma city_street:
  "with_street city_geocode
     (components_of (PStr [0x5317, 0x4EAC, 0x5E02]) (PStr [0x5317, 0x4EAC, 0x5E02]) (PList []) (PStr []))
   = Inr (components_of (PStr [0x5317, 0x4EAC, 0x5E02]) (PStr [0x5317, 0x4EAC, 0x5E02]) (PList []) (PStr []))"
  by (simp add: with_street_def city_geocode_def andthen_def extract_possible_street_def
        components_of_def field_def street_patterns_def re_defs cls_defs py_defs)

lemma city_remaining:
  "remove_fields
     (components_of (PStr [0x5317, 0x4EAC, 0x5E02]) (PStr [0x5317, 0x4EAC, 0x5E02]) (PList []) (PStr []))
     [asc ''province'', asc ''city'', asc ''name'', asc ''phone''] [0x5317, 0x4EAC, 0x5E02] = Inr []"
  by (simp add: components_of_def field_def andthen_def py_defs)

lemma city_not_special: "first_special special_keywords [0x5317, 0x4EAC, 0x5E02] = None"
  by (simp add: special_keywords_def re_defs cls_defs)

lemma city_building:
  "\<exists>b u r s'. extract_building_info ev [0x5317, 0x4EAC, 0x5E02]
       (components_of (PStr [0x5317, 0x4EAC, 0x5E02]) (PStr [0x5317, 0x4EAC, 0x5E02]) (PList []) (PStr [])) s
     = (Inr (building_result b u r), s')"
proof -
  obtain ra s' where c: "clean_address_string ev [] s = (ra, s')"
    by (cases "clean_address_string ev [] s")
  obtain b u r where d: "decompose ra = building_result b u r"
    using decompose_result by blast
  have "extract_building_info ev [0x5317, 0x4EAC, 0x5E02]
          (components_of (PStr [0x5317, 0x4EAC, 0x5E02]) (PStr [0x5317, 0x4EAC, 0x5E02]) (PList []) (PStr [])) s
        = (Inr (building_result b u r), s')"
    using c d by (simp add: extract_building_info_def city_remaining city_not_special del: remove_fields.simps)
  then show ?thesis by blast
qed

lemma district_building_result: "(c ++ building_result b u r) (asc ''district'') = c (asc ''district'')"
  by (simp add: building_result_def map_add_def asc_def)

lemma district_with_contact: "with_contact a c (asc ''district'') = c (asc ''district'')"
  by (simp add: with_contact_def asc_def split: prod.splits)

lemma district_components_of: "components_of p c d st (asc ''district'') = Some d"
  by (simp add: components_of_def asc_def)

lemma city_weather:
  "\<exists>w s'. with_weather ev city_geocode c s = (Inr (c(asc ''weather'' \<mapsto> w)), s')"
proof -
  obtain w s' where g: "get_weather_info ev (PStr (asc ''110000'')) s = (w, s')"
    by (cases "get_weather_info ev (PStr (asc ''110000'')) s")
  have t: "asc ''110000'' \<noteq> []"
    by (simp add: asc_def)
  have a: "py_get city_geocode (asc ''adcode'') PNone = Inr (PStr (asc ''110000''))"
    by (simp add: city_geocode_def) (simp add: asc_def)
  have "with_weather ev city_geocode c s = (Inr (c(asc ''weather'' \<mapsto> w)), s')"
    by (simp add: with_weather_def a t g)
  then show ?thesis by blast
qed

lemma city_branch:
  "\<exists>r s'. geocode_branch ev [0x5317, 0x4EAC, 0x5E02] city_geocode s = (Inr r, s')
          \<and> r (asc ''district'') = Some (PList [])"
proof -
  let ?c = "components_of (PStr [0x5317, 0x4EAC, 0x5E02]) (PStr [0x5317, 0x4EAC, 0x5E02]) (PList []) (PStr [])"
  obtain b u r s1 where e: "extract_building_info ev [0x5317, 0x4EAC, 0x5E02] ?c s = (Inr (building_result b u r), s1)"
    using city_building by blast
  let ?d = "with_contact [0x5317, 0x4EAC, 0x5E02] (?c ++ building_result b u r)"
  obtain w s2 where w: "with_weather ev city_geocode ?d s1 = (Inr (?d(asc ''weather'' \<mapsto> w)), s2)"
    using city_weather by blast
  have g: "geocode_branch ev [0x5317, 0x4EAC, 0x5E02] city_geocode s = (Inr (?d(asc ''weather'' \<mapsto> w)), s2)"
    by (simp add: geocode_branch_def city_components city_street andthen_def e w)
  have "(?d(asc ''weather'' \<mapsto> w)) (asc ''district'') = Some (PList [])"
    by (simp add: district_with_contact district_building_result district_components_of)
       (simp add: asc_def)
  with g show ?thesis by blast
qed

text \<open>
  C1. The record of \<open>complete_address\<close> always holds the nine fields and the weather field,
  and an exception gives the empty record, but province, city and district are the values
  of the provider's response as they come, and these need not be texts. When every request
  for the text U+5317 U+4EAC U+5E02 (Beijing) is answered with a geocode whose district is
  the empty list, the name lookup finds nothing, the first geocode is taken, and the
  district of the record is the empty list, not the empty text. The comments beside
  \<open>geocode.get('district', '')\<close> say that the empty text is meant; the default of \<open>get\<close>
  applies only to a key that is absent.
\<close>

theorem complete_address_district_not_text:
  "fst (complete_address (answering city_body) [0x5317, 0x4EAC, 0x5E02] init) (asc ''district'')
     = Some (PList [])
   \<and> is_text_at (fst (complete_address (answering city_body) [0x5317, 0x4EAC, 0x5E02] init))
       (asc ''district'') = False"
proof -
  let ?ev = "answering city_body" and ?a = "[0x5317, 0x4EAC, 0x5E02]"
  have "district_cache init ?a = None" by (simp add: init_def)
  then have "fst (get_district_by_name ?ev ?a init) = None"
    using city_body_district by (rule get_district_nothing)
  then obtain s2 where d: "get_district_by_name ?ev ?a init = (None, s2)"
    by (cases "get_district_by_name ?ev ?a init") simp
  obtain s3 where g: "geo_code ?ev ?a s2 = (city_body, s3)"
    using geo_code_answering [of city_body ?a s2] by (cases "geo_code ?ev ?a s2") simp
  obtain r s4 where b: "geocode_branch ?ev ?a city_geocode s3 = (Inr r, s4)"
    and r: "r (asc ''district'') = Some (PList [])"
    using city_branch by blast
  have "text_body ?ev ?a init = (Inr (Some r), s4)"
    by (simp add: text_body_def beijing_clean d g city_body_first b)
  then have "fst (parse_address_by_text ?ev ?a init) = r"
    by (simp add: parse_address_by_text_def)
  then have "fst (complete_address ?ev ?a init) = r"
    by (simp add: complete_address_text beijing_clean)
  with r show ?thesis
    by (simp add: is_text_at_def)
qed

end
